theory Spec2Isabelle
  imports Complex_Main
begin

section \<open>Data model\<close>

text \<open>
  The backend of the game platform is one file, \<^verbatim>\<open>Server/backend/server.js\<close>, with two
  mongoose schemas (\<^verbatim>\<open>models/user.js\<close>, \<^verbatim>\<open>models/game.js\<close>). Its route handlers are
  embedded here as functions from the request fields and the database to a response and
  the database afterwards. A request is handled from start to end before the next one
  (no interleaving of the awaits of two requests). The three \<^verbatim>\<open>GET\<close> routes only read
  and are not embedded.

  An ObjectId is identified with its hexadecimal string, which \<^verbatim>\<open>toString()\<close> returns.
\<close>

datatype objectid = ObjectId string

fun toString :: "objectid \<Rightarrow> string" where
  "toString (ObjectId h) = h"

text \<open>\<^verbatim>\<open>userSchema\<close>: the timestamps are left out, no handler reads them.\<close>

record user =
  user_id :: objectid
  username :: string
  email :: string
  passwordHash :: string
  isAdmin :: bool
  library :: "objectid list"

text \<open>\<^verbatim>\<open>gameSchema\<close>. A Number is a finite double, read as the real number it denotes: the
  handlers store and compare prices and never compute with them. The price of a stored
  game is \<open>None\<close> when an update has set it to \<^verbatim>\<open>null\<close> or removed it. A Date is its time
  value.\<close>

record game =
  game_id :: objectid
  title :: string
  description :: string
  price :: "real option"
  coverUrl :: string
  genre :: string
  releaseDate :: "int option"
  createdBy :: objectid

record db =
  users :: "user list"
  games :: "game list"

text \<open>The claims of a token, \<^verbatim>\<open>{ id, username, isAdmin }\<close>.\<close>

record payload =
  p_id :: objectid
  p_username :: string
  p_isAdmin :: bool

text \<open>A JSON value, as \<^verbatim>\<open>express.json()\<close> parses a request body.\<close>

datatype json =
    JNull
  | JBool bool
  | JNum real
  | JStr string
  | JArr "json list"
  | JObj "(string \<times> json) list"

text \<open>
  What the server takes from outside the repository: the environment variable, and the
  functions of JavaScript, mongoose, bcrypt and jsonwebtoken that the handlers call. They
  are parameters of the model, and nothing is assumed of them but what a theorem states
  as a hypothesis.
  \<^item> \<open>toLowerCase\<close> is \<^verbatim>\<open>String.prototype.toLowerCase\<close>, which mongoose's \<^verbatim>\<open>lowercase: true\<close>
    applies;
  \<^item> \<open>castObjectId\<close> is mongoose's cast of a string to an ObjectId (\<open>None\<close>: CastError);
  \<^item> \<open>castUpdate\<close> is what \<^verbatim>\<open>findByIdAndUpdate\<close> makes of an update document: \<open>None\<close> where
    casting it throws, otherwise the change that MongoDB applies to the document found
    (plain fields are set, operators such as \<^verbatim>\<open>$inc\<close> and \<^verbatim>\<open>$unset\<close> do what they say);
  \<^item> \<open>newObjectId\<close> is the id a new document gets;
  \<^item> \<open>bcrypt_hash\<close> hashes with the salt of this call;
  \<^item> \<open>jwt_verify\<close> is \<open>None\<close> where \<^verbatim>\<open>jwt.verify\<close> throws (bad signature, expired, not a
    token);
  \<^item> \<open>parseDate\<close> is \<open>None\<close> for an Invalid Date.
\<close>

record env =
  env_JWT_SECRET :: "string option"
  toLowerCase :: "string \<Rightarrow> string"
  castObjectId :: "string \<Rightarrow> objectid option"
  castUpdate :: "json \<Rightarrow> (game \<Rightarrow> game) option"
  newObjectId :: objectid
  bcrypt_hash :: "string \<Rightarrow> nat \<Rightarrow> string"
  bcrypt_compare :: "string \<Rightarrow> string \<Rightarrow> bool"
  jwt_sign :: "payload \<Rightarrow> string \<Rightarrow> string \<Rightarrow> string"
  jwt_verify :: "string \<Rightarrow> string \<Rightarrow> payload option"
  parseDate :: "string \<Rightarrow> int option"

text \<open>The JSON bodies the handlers send.\<close>

datatype body =
    Message string
  | AuthOk string objectid string string bool
  | GameDoc game
  | LibraryMsg string "objectid list"

record response =
  status :: nat
  body :: body

definition reply :: "nat \<Rightarrow> body \<Rightarrow> response" where
  "reply code b = \<lparr>status = code, body = b\<rparr>"

section \<open>JavaScript and mongoose helpers\<close>

text \<open>A field that a handler takes out of a request is a string or absent. \<^verbatim>\<open>!x\<close> holds
  of \<^verbatim>\<open>undefined\<close> and of the empty string.\<close>

definition falsy :: "string option \<Rightarrow> bool" where
  "falsy v = (v = None \<or> v = Some [])"

text \<open>\<^verbatim>\<open>s.split(sep)\<close> for a separator of one character, and \<^verbatim>\<open>xs[i]\<close> (\<open>None\<close> is
  \<^verbatim>\<open>undefined\<close>).\<close>

fun split :: "char \<Rightarrow> string \<Rightarrow> string list" where
  "split sep [] = [[]]"
| "split sep (c # cs) =
     (if c = sep then [] # split sep cs
      else (case split sep cs of [] \<Rightarrow> [[c]] | w # ws \<Rightarrow> (c # w) # ws))"

fun index :: "'a list \<Rightarrow> nat \<Rightarrow> 'a option" where
  "index [] i = None"
| "index (x # xs) 0 = Some x"
| "index (x # xs) (Suc i) = index xs i"

text \<open>\<^verbatim>\<open>Model.findById\<close> and \<^verbatim>\<open>Model.findOne\<close> return the first matching document of the
  collection.\<close>

definition findUserById :: "user list \<Rightarrow> objectid \<Rightarrow> user option" where
  "findUserById us oid = find (\<lambda>u. user_id u = oid) us"

definition findGameById :: "game list \<Rightarrow> objectid \<Rightarrow> game option" where
  "findGameById gs oid = find (\<lambda>g. game_id g = oid) gs"

text \<open>\<^verbatim>\<open>doc.save()\<close> of a document that was loaded: the stored document with its id is
  replaced.\<close>

fun saveUser :: "user \<Rightarrow> user list \<Rightarrow> user list" where
  "saveUser u [] = []"
| "saveUser u (x # xs) = (if user_id x = user_id u then u # xs else x # saveUser u xs)"

text \<open>The removal done by \<^verbatim>\<open>Game.findByIdAndDelete\<close>: the first game with the id goes.\<close>

fun deleteGameById :: "objectid \<Rightarrow> game list \<Rightarrow> game list" where
  "deleteGameById oid [] = []"
| "deleteGameById oid (g # gs) = (if game_id g = oid then gs else g # deleteGameById oid gs)"

text \<open>\<^verbatim>\<open>User.updateMany({ library: id }, { $pull: { library: id } })\<close>: in every user whose
  library has the id, every occurrence of it is pulled.\<close>

definition updateMany_pull :: "objectid \<Rightarrow> user list \<Rightarrow> user list" where
  "updateMany_pull oid us =
     map (\<lambda>u. if oid \<in> set (library u) then u\<lparr>library := removeAll oid (library u)\<rparr> else u) us"

section \<open>The server\<close>

text \<open>\<^verbatim>\<open>const JWT_SECRET = process.env.JWT_SECRET || 'secretllavesecreta'\<close>\<close>

definition JWT_SECRET :: "env \<Rightarrow> string" where
  "JWT_SECRET E =
     (if falsy (env_JWT_SECRET E) then ''secretllavesecreta'' else the (env_JWT_SECRET E))"

text \<open>\<^verbatim>\<open>authMiddleware\<close>: \<open>Inl\<close> is the response it sends itself, \<open>Inr\<close> the payload it puts
  in \<^verbatim>\<open>req.user\<close> before calling \<^verbatim>\<open>next()\<close>. Its argument is
  \<^verbatim>\<open>req.headers.authorization\<close>.\<close>

definition authMiddleware :: "env \<Rightarrow> string option \<Rightarrow> response + payload" where
  "authMiddleware E authHeader =
     (if falsy authHeader then Inl (reply 401 (Message ''No token provided''))
      else
        let token = index (split (CHR '' '') (the authHeader)) 1 in
        if falsy token then Inl (reply 401 (Message ''Malformed token''))
        else
          (case jwt_verify E (the token) (JWT_SECRET E) of
             None \<Rightarrow> Inl (reply 401 (Message ''Invalid token''))
           | Some payload \<Rightarrow> Inr payload))"

text \<open>A route registered as \<^verbatim>\<open>app.METHOD(path, this.authMiddleware.bind(this), handler)\<close>.\<close>

definition protected ::
  "env \<Rightarrow> string option \<Rightarrow> (payload \<Rightarrow> db \<Rightarrow> response \<times> db) \<Rightarrow> db \<Rightarrow> response \<times> db" where
  "protected E authHeader handler st =
     (case authMiddleware E authHeader of
        Inl r \<Rightarrow> (r, st)
      | Inr req_user \<Rightarrow> handler req_user st)"

subsection \<open>Games\<close>

text \<open>\<^verbatim>\<open>app.delete('/api/games/:id')\<close>. A CastError of the id is caught and answered 500.\<close>

definition delete_game_handler :: "env \<Rightarrow> string \<Rightarrow> payload \<Rightarrow> db \<Rightarrow> response \<times> db" where
  "delete_game_handler E id' req_user st =
     (case castObjectId E id' of
        None \<Rightarrow> (reply 500 (Message ''Server error''), st)
      | Some oid \<Rightarrow>
          (case findGameById (games st) oid of
             None \<Rightarrow> (reply 404 (Message ''Not found''), st)
           | Some game \<Rightarrow>
               (reply 200 (Message ''Deleted''),
                st\<lparr>games := deleteGameById oid (games st),
                   users := updateMany_pull (game_id game) (users st)\<rparr>)))"

definition delete_game :: "env \<Rightarrow> string option \<Rightarrow> string \<Rightarrow> db \<Rightarrow> response \<times> db" where
  "delete_game E authHeader id' st = protected E authHeader (delete_game_handler E id') st"

text \<open>\<^verbatim>\<open>app.post('/api/games')\<close>. \<^verbatim>\<open>price || 0\<close> is 0 for an absent price and for the
  price 0. The schema gives an absent description its default; an Invalid Date fails
  validation in \<^verbatim>\<open>save()\<close>, which is caught and answered 500. The schema has no
  validator on the price.\<close>

definition create_game_handler ::
  "env \<Rightarrow> string option \<Rightarrow> string option \<Rightarrow> real option \<Rightarrow> string option \<Rightarrow>
   string option \<Rightarrow> string option \<Rightarrow> payload \<Rightarrow> db \<Rightarrow> response \<times> db" where
  "create_game_handler E title' description' price' coverUrl' genre' releaseDate' req_user st =
     (if falsy title' then (reply 400 (Message ''Title required''), st)
      else if \<not> falsy releaseDate' \<and> parseDate E (the releaseDate') = None
      then (reply 500 (Message ''Server error''), st)
      else
        let game = \<lparr>game_id = newObjectId E,
                    title = the title',
                    description = (case description' of None \<Rightarrow> [] | Some d \<Rightarrow> d),
                    price = Some (case price' of None \<Rightarrow> 0 | Some p \<Rightarrow> if p = 0 then 0 else p),
                    coverUrl = (if falsy coverUrl' then [] else the coverUrl'),
                    genre = (if falsy genre' then [] else the genre'),
                    releaseDate = (if falsy releaseDate' then None
                                   else parseDate E (the releaseDate')),
                    createdBy = p_id req_user\<rparr>
        in (reply 200 (GameDoc game), st\<lparr>games := games st @ [game]\<rparr>))"

definition create_game ::
  "env \<Rightarrow> string option \<Rightarrow> string option \<Rightarrow> string option \<Rightarrow> real option \<Rightarrow> string option \<Rightarrow>
   string option \<Rightarrow> string option \<Rightarrow> db \<Rightarrow> response \<times> db" where
  "create_game E authHeader title' description' price' coverUrl' genre' releaseDate' st =
     protected E authHeader
       (create_game_handler E title' description' price' coverUrl' genre' releaseDate') st"

text \<open>\<^verbatim>\<open>app.put('/api/games/:id')\<close>: the handler hands \<^verbatim>\<open>req.body\<close> whole to
  \<^verbatim>\<open>Game.findByIdAndUpdate(id, update, { new: true })\<close>, which casts the id and the update
  (a CastError is caught and answered 500), applies the update to the first game with
  the id without running a validator, and returns the game as updated, or \<^verbatim>\<open>null\<close>.\<close>

fun updateGameById :: "objectid \<Rightarrow> (game \<Rightarrow> game) \<Rightarrow> game list \<Rightarrow> game list" where
  "updateGameById oid f [] = []"
| "updateGameById oid f (g # gs) =
     (if game_id g = oid then f g # gs else g # updateGameById oid f gs)"

definition update_game_handler :: "env \<Rightarrow> string \<Rightarrow> json \<Rightarrow> payload \<Rightarrow> db \<Rightarrow> response \<times> db" where
  "update_game_handler E id' update req_user st =
     (case castObjectId E id' of
        None \<Rightarrow> (reply 500 (Message ''Server error''), st)
      | Some oid \<Rightarrow>
          (case castUpdate E update of
             None \<Rightarrow> (reply 500 (Message ''Server error''), st)
           | Some f \<Rightarrow>
               (case findGameById (games st) oid of
                  None \<Rightarrow> (reply 404 (Message ''Not found''), st)
                | Some game \<Rightarrow>
                    (reply 200 (GameDoc (f game)),
                     st\<lparr>games := updateGameById oid f (games st)\<rparr>))))"

definition update_game :: "env \<Rightarrow> string option \<Rightarrow> string \<Rightarrow> json \<Rightarrow> db \<Rightarrow> response \<times> db" where
  "update_game E authHeader id' update st =
     protected E authHeader (update_game_handler E id' update) st"

subsection \<open>Library\<close>

text \<open>\<^verbatim>\<open>app.post('/api/library/add')\<close>. \<^verbatim>\<open>req.user.id\<close> is the id in the verified token.
  \<^verbatim>\<open>user.library\<close> is a mongoose array, whose \<^verbatim>\<open>includes\<close> compares ObjectIds by
  value.\<close>

definition library_add_handler :: "env \<Rightarrow> string option \<Rightarrow> payload \<Rightarrow> db \<Rightarrow> response \<times> db" where
  "library_add_handler E gameId req_user st =
     (if falsy gameId then (reply 400 (Message ''gameId required''), st)
      else
        (case castObjectId E (the gameId) of
           None \<Rightarrow> (reply 500 (Message ''Server error''), st)
         | Some oid \<Rightarrow>
             (case findGameById (games st) oid of
                None \<Rightarrow> (reply 404 (Message ''Game not found''), st)
              | Some game \<Rightarrow>
                  (case findUserById (users st) (p_id req_user) of
                     None \<Rightarrow> (reply 404 (Message ''User not found''), st)
                   | Some user \<Rightarrow>
                       if game_id game \<in> set (library user)
                       then (reply 400 (Message ''Already in library''), st)
                       else
                         let user' = user\<lparr>library := library user @ [game_id game]\<rparr>
                         in (reply 200 (LibraryMsg ''Added'' (library user')),
                             st\<lparr>users := saveUser user' (users st)\<rparr>)))))"

definition library_add :: "env \<Rightarrow> string option \<Rightarrow> string option \<Rightarrow> db \<Rightarrow> response \<times> db" where
  "library_add E authHeader gameId st = protected E authHeader (library_add_handler E gameId) st"

text \<open>\<^verbatim>\<open>app.post('/api/library/remove')\<close>: the filter compares the string of each id with
  the \<^verbatim>\<open>gameId\<close> of the body.\<close>

definition library_remove_handler :: "env \<Rightarrow> string option \<Rightarrow> payload \<Rightarrow> db \<Rightarrow> response \<times> db" where
  "library_remove_handler E gameId req_user st =
     (if falsy gameId then (reply 400 (Message ''gameId required''), st)
      else
        (case findUserById (users st) (p_id req_user) of
           None \<Rightarrow> (reply 404 (Message ''User not found''), st)
         | Some user \<Rightarrow>
             let user' = user\<lparr>library := filter (\<lambda>g. toString g \<noteq> the gameId) (library user)\<rparr>
             in (reply 200 (LibraryMsg ''Removed'' (library user')),
                 st\<lparr>users := saveUser user' (users st)\<rparr>)))"

definition library_remove :: "env \<Rightarrow> string option \<Rightarrow> string option \<Rightarrow> db \<Rightarrow> response \<times> db" where
  "library_remove E authHeader gameId st =
     protected E authHeader (library_remove_handler E gameId) st"

subsection \<open>Auth\<close>

text \<open>
  \<^verbatim>\<open>app.post('/api/auth/register')\<close>. mongoose applies the setter of a schema path
  (\<^verbatim>\<open>lowercase: true\<close> of \<open>email\<close>) to the value in a query filter as it does to the value
  of a new document, so \<^verbatim>\<open>findOne\<close> looks for the lowercased email. \<^verbatim>\<open>save()\<close> validates
  first: \<^verbatim>\<open>minlength: 3\<close> of \<open>username\<close> and \<^verbatim>\<open>required\<close> of the three strings; a
  validation error is thrown, caught, and answered 500.
\<close>

definition validateUser :: "user \<Rightarrow> bool" where
  "validateUser u = (username u \<noteq> [] \<and> 3 \<le> length (username u) \<and> email u \<noteq> [] \<and> passwordHash u \<noteq> [])"

definition register ::
  "env \<Rightarrow> string option \<Rightarrow> string option \<Rightarrow> string option \<Rightarrow> db \<Rightarrow> response \<times> db" where
  "register E username' email' password' st =
     (if falsy username' \<or> falsy email' \<or> falsy password'
      then (reply 400 (Message ''Missing fields''), st)
      else
        (case find (\<lambda>u. email u = toLowerCase E (the email') \<or> username u = the username') (users st) of
           Some existing \<Rightarrow> (reply 400 (Message ''Email or username already in use''), st)
         | None \<Rightarrow>
             let saltRounds = 10;
                 passwordHash' = bcrypt_hash E (the password') saltRounds;
                 user = \<lparr>user_id = newObjectId E,
                         username = the username',
                         email = toLowerCase E (the email'),
                         passwordHash = passwordHash',
                         isAdmin = False,
                         library = []\<rparr>
             in if \<not> validateUser user then (reply 500 (Message ''Server error''), st)
                else
                  let token = jwt_sign E
                                \<lparr>p_id = user_id user, p_username = username user,
                                 p_isAdmin = isAdmin user\<rparr>
                                (JWT_SECRET E) ''7d''
                  in (reply 200 (AuthOk token (user_id user) (username user) (email user)
                                   (isAdmin user)),
                      st\<lparr>users := users st @ [user]\<rparr>)))"

text \<open>\<^verbatim>\<open>app.post('/api/auth/login')\<close> reads the database and does not write it.\<close>

definition login :: "env \<Rightarrow> string option \<Rightarrow> string option \<Rightarrow> db \<Rightarrow> response" where
  "login E emailOrUsername password' st =
     (if falsy emailOrUsername \<or> falsy password'
      then reply 400 (Message ''Missing fields'')
      else
        (case find (\<lambda>u. email u = toLowerCase E (the emailOrUsername)
                         \<or> username u = the emailOrUsername) (users st) of
           None \<Rightarrow> reply 400 (Message ''Invalid credentials'')
         | Some user \<Rightarrow>
             if \<not> bcrypt_compare E (the password') (passwordHash user)
             then reply 400 (Message ''Invalid credentials'')
             else
               let token = jwt_sign E
                             \<lparr>p_id = user_id user, p_username = username user,
                              p_isAdmin = isAdmin user\<rparr>
                             (JWT_SECRET E) ''7d''
               in reply 200 (AuthOk token (user_id user) (username user) (email user)
                               (isAdmin user))))"

section \<open>Invariants\<close>

text \<open>No two users share a username, and no two share an email.\<close>

definition unique_identities :: "user list \<Rightarrow> bool" where
  "unique_identities us = (distinct (map username us) \<and> distinct (map email us))"

text \<open>The price of a game is a non-negative number.\<close>

definition price_nonneg :: "game \<Rightarrow> bool" where
  "price_nonneg g = (case price g of None \<Rightarrow> False | Some v \<Rightarrow> 0 \<le> v)"

section \<open>Example data\<close>

text \<open>A stand-in for the libraries, with which the handlers can be run on examples, and a
  small database: two users who both have the game Chess in their libraries. The
  stand-in lowercases the ASCII letters, and knows the update documents that set the
  price to a number or to \<^verbatim>\<open>null\<close>, increment it, or are empty.\<close>

definition lower_char :: "char \<Rightarrow> char" where
  "lower_char c =
     (let n = (of_char c :: nat) in if 65 \<le> n \<and> n \<le> 90 then char_of (n + 32) else c)"

definition ascii_toLowerCase :: "string \<Rightarrow> string" where
  "ascii_toLowerCase s = map lower_char s"

definition set_price :: "real option \<Rightarrow> game \<Rightarrow> game" where
  "set_price v g = g\<lparr>price := v\<rparr>"

definition inc_price :: "real \<Rightarrow> game \<Rightarrow> game" where
  "inc_price v g = g\<lparr>price := map_option (\<lambda>x. x + v) (price g)\<rparr>"

fun demo_castUpdate :: "json \<Rightarrow> (game \<Rightarrow> game) option" where
  "demo_castUpdate (JObj []) = Some id"
| "demo_castUpdate (JObj [(k, JNum v)]) =
     (if k = ''price'' then Some (set_price (Some v)) else None)"
| "demo_castUpdate (JObj [(k, JNull)]) =
     (if k = ''price'' then Some (set_price None) else None)"
| "demo_castUpdate (JObj [(k, JObj [(k', JNum v)])]) =
     (if k = ''$inc'' \<and> k' = ''price'' then Some (inc_price v) else None)"
| "demo_castUpdate _ = None"

definition demo_env :: env where
  "demo_env =
     \<lparr>env_JWT_SECRET = None,
      toLowerCase = ascii_toLowerCase,
      castObjectId = (\<lambda>s. if length s = 24 then Some (ObjectId s) else None),
      castUpdate = demo_castUpdate,
      newObjectId = ObjectId ''650000000000000000000001'',
      bcrypt_hash = (\<lambda>p r. ''$2b$10$'' @ p),
      bcrypt_compare = (\<lambda>p h. h = ''$2b$10$'' @ p),
      jwt_sign = (\<lambda>p k opts. ''jwt.'' @ p_username p),
      jwt_verify = (\<lambda>t k. if t = ''jwt.ann'' \<and> k = ''secretllavesecreta''
                           then Some \<lparr>p_id = ObjectId ''650000000000000000000001'',
                                      p_username = ''ann'', p_isAdmin = False\<rparr>
                           else None),
      parseDate = (\<lambda>s. None)\<rparr>"

definition chess_id :: objectid where "chess_id = ObjectId ''65000000000000000000000a''"

definition ann :: user where
  "ann = \<lparr>user_id = ObjectId ''650000000000000000000001'', username = ''ann'',
          email = ''a@x.com'', passwordHash = ''$2b$10$p12345'', isAdmin = False,
          library = [chess_id]\<rparr>"

definition bob :: user where
  "bob = \<lparr>user_id = ObjectId ''650000000000000000000002'', username = ''bob'',
          email = ''b@x.com'', passwordHash = ''$2b$10$hunter2'', isAdmin = False,
          library = [chess_id, chess_id]\<rparr>"

definition chess :: game where
  "chess = \<lparr>game_id = chess_id, title = ''Chess'', description = [], price = Some 0,
            coverUrl = [], genre = [], releaseDate = None,
            createdBy = ObjectId ''650000000000000000000001''\<rparr>"

definition demo_db :: db where
  "demo_db = \<lparr>users = [ann, bob], games = [chess]\<rparr>"

text \<open>The game that \<open>demo_env\<close> creates from the title Go, with the price \<open>v\<close> stored.\<close>

definition go :: "real \<Rightarrow> game" where
  "go v = \<lparr>game_id = ObjectId ''650000000000000000000001'', title = ''Go'', description = [],
           price = Some v, coverUrl = [], genre = [], releaseDate = None,
           createdBy = ObjectId ''650000000000000000000001''\<rparr>"

text \<open>The payload of Ann's token, the id of a game that is not in the catalog, and the
  database before Ann adds Chess.\<close>

definition ann_payload :: payload where
  "ann_payload = \<lparr>p_id = ObjectId ''650000000000000000000001'', p_username = ''ann'',
                   p_isAdmin = False\<rparr>"

definition go_id :: objectid where "go_id = ObjectId ''65000000000000000000000b''"

definition ann0 :: user where "ann0 = ann\<lparr>library := []\<rparr>"

definition fresh_db :: db where "fresh_db = \<lparr>users = [ann0, bob], games = [chess]\<rparr>"

text \<open>The empty database, and two users of whom the first has taken the email of the
  second as username; each registers with an environment that issues the id shown.\<close>

definition empty_db :: db where "empty_db = \<lparr>users = [], games = []\<rparr>"

definition carl :: user where
  "carl = \<lparr>user_id = ObjectId ''650000000000000000000003'', username = ''dan@x.com'',
           email = ''carl@x.com'', passwordHash = ''$2b$10$carlpw'', isAdmin = False,
           library = []\<rparr>"

definition dan :: user where
  "dan = \<lparr>user_id = ObjectId ''650000000000000000000004'', username = ''dan'',
          email = ''dan@x.com'', passwordHash = ''$2b$10$danpw'', isAdmin = False,
          library = []\<rparr>"

definition env_carl :: env where
  "env_carl = demo_env\<lparr>newObjectId := ObjectId ''650000000000000000000003''\<rparr>"

definition env_dan :: env where
  "env_dan = demo_env\<lparr>newObjectId := ObjectId ''650000000000000000000004''\<rparr>"

definition collide_db :: db where "collide_db = \<lparr>users = [carl, dan], games = []\<rparr>"

definition collide_db' :: db where "collide_db' = \<lparr>users = [dan, carl], games = []\<rparr>"

text \<open>A second stand-in for jsonwebtoken, which issues a token for every payload and reads
  it back: the key and the three claims are written in unary, each closed by a bar.\<close>

fun enc_str :: "string \<Rightarrow> string" where
  "enc_str [] = []"
| "enc_str (c # cs) = replicate (of_char c) (CHR ''x'') @ CHR ''.'' # enc_str cs"

fun dec_strs :: "string \<Rightarrow> nat \<Rightarrow> string \<Rightarrow> string list" where
  "dec_strs [] n acc = []"
| "dec_strs (c # cs) n acc =
     (if c = CHR ''x'' then dec_strs cs (Suc n) acc
      else if c = CHR ''.'' then dec_strs cs 0 (acc @ [char_of n])
      else acc # dec_strs cs 0 [])"

definition enc_strs :: "string list \<Rightarrow> string" where
  "enc_strs ss = concat (map (\<lambda>s. enc_str s @ ''|'') ss)"

definition toy_sign :: "payload \<Rightarrow> string \<Rightarrow> string \<Rightarrow> string" where
  "toy_sign pl k opts =
     enc_strs [k, toString (p_id pl), p_username pl, if p_isAdmin pl then ''1'' else ''0'']"

definition toy_verify :: "string \<Rightarrow> string \<Rightarrow> payload option" where
  "toy_verify t k =
     (case dec_strs t 0 [] of
        [k', h, u, f] \<Rightarrow>
          if k' = k then Some \<lparr>p_id = ObjectId h, p_username = u, p_isAdmin = (f = ''1'')\<rparr>
          else None
      | _ \<Rightarrow> None)"

definition codec_env :: env where
  "codec_env = demo_env\<lparr>jwt_sign := toy_sign, jwt_verify := toy_verify\<rparr>"

section \<open>Properties\<close>

lemma find_Some_holds: "find P xs = Some x \<Longrightarrow> P x \<and> x \<in> set xs"
  by (induction xs) (auto split: if_splits)

lemma updateMany_pull_clean: "u \<in> set (updateMany_pull oid us) \<Longrightarrow> oid \<notin> set (library u)"
  by (auto simp: updateMany_pull_def split: if_splits)

subsection \<open>Deleting a game\<close>

lemmas demo_defs = demo_env_def demo_db_def ann_def bob_def chess_def chess_id_def

lemma authMiddleware_status: "authMiddleware E h = Inl r \<Longrightarrow> status r = 401"
  by (auto simp: authMiddleware_def reply_def Let_def split: if_splits option.splits)

lemma protected_ok:
  assumes "protected E h handler st = (r, st')" and "status r \<noteq> 401"
  shows "\<exists>p. authMiddleware E h = Inr p \<and> handler p st = (r, st')"
  using assms by (auto simp: protected_def dest: authMiddleware_status split: sum.splits)

lemma delete_game_handler_clean:
  assumes "delete_game_handler E id' p st = (r, st')" and "status r = 200"
  shows "\<exists>g\<in>set (games st). castObjectId E id' = Some (game_id g) \<and>
           (\<forall>u\<in>set (users st'). game_id g \<notin> set (library u))"
proof (cases "castObjectId E id'")
  case None
  with assms show ?thesis by (auto simp: delete_game_handler_def reply_def)
next
  case (Some oid)
  show ?thesis
  proof (cases "findGameById (games st) oid")
    case None
    with Some assms show ?thesis by (auto simp: delete_game_handler_def reply_def)
  next
    case found: (Some g)
    then have g: "game_id g = oid" "g \<in> set (games st)"
      using find_Some_holds [of "\<lambda>g. game_id g = oid" "games st" g]
      by (simp_all add: findGameById_def)
    from Some found assms have "users st' = updateMany_pull (game_id g) (users st)"
      by (auto simp: delete_game_handler_def)
    with g Some show ?thesis
      by (auto dest: updateMany_pull_clean)
  qed
qed

text \<open>
  Claim C1. When \<^verbatim>\<open>DELETE /api/games/:id\<close> answers with the confirmation
  \<^verbatim>\<open>{ message: 'Deleted' }\<close>, the id named a game of the catalog, and in the database the
  handler leaves behind no user's library contains that game's id.
\<close>

theorem delete_cascade:
  assumes "delete_game E authHeader id' st = (r, st')"
    and "r = reply 200 (Message ''Deleted'')"
  shows "\<exists>g\<in>set (games st). castObjectId E id' = Some (game_id g) \<and>
           (\<forall>u\<in>set (users st'). game_id g \<notin> set (library u))"
proof -
  from assms(2) have s: "status r = 200" by (simp add: reply_def)
  with assms(1) obtain p where "delete_game_handler E id' p st = (r, st')"
    using protected_ok [of E authHeader "delete_game_handler E id'" st r st']
    by (auto simp: delete_game_def)
  then show ?thesis using s by (rule delete_game_handler_clean)
qed

lemma demo_delete:
  "delete_game demo_env (Some ''Bearer jwt.ann'') ''65000000000000000000000a'' demo_db =
     (reply 200 (Message ''Deleted''),
      \<lparr>users = [ann\<lparr>library := []\<rparr>, bob\<lparr>library := []\<rparr>], games = []\<rparr>)"
  by (simp add: delete_game_def protected_def delete_game_handler_def reply_def findGameById_def
      authMiddleware_def falsy_def JWT_SECRET_def updateMany_pull_def demo_defs)

theorem delete_cascade_witness:
  "delete_game demo_env (Some ''Bearer jwt.ann'') ''65000000000000000000000a'' demo_db =
     (reply 200 (Message ''Deleted''),
      \<lparr>users = [ann\<lparr>library := []\<rparr>, bob\<lparr>library := []\<rparr>], games = []\<rparr>) \<and>
   chess_id \<in> set (library ann) \<and> chess_id \<in> set (library bob) \<and>
   (\<exists>g\<in>set (games demo_db). castObjectId demo_env ''65000000000000000000000a'' = Some (game_id g) \<and>
      (\<forall>u\<in>set [ann\<lparr>library := []\<rparr>, bob\<lparr>library := []\<rparr>]. game_id g \<notin> set (library u)))"
  using delete_cascade [OF demo_delete refl] demo_delete
  by (simp add: ann_def bob_def)

subsection \<open>The library\<close>

lemma saveUser_found:
  "findUserById us (user_id u) = Some u0 \<Longrightarrow> findUserById (saveUser u us) (user_id u) = Some u"
  by (induction us) (auto simp: findUserById_def split: if_splits)

lemma saveUser_same: "findUserById us oid = Some u \<Longrightarrow> saveUser u us = us"
  by (induction us) (auto simp: findUserById_def split: if_splits dest: find_Some_holds)

lemma findUserById_id: "findUserById us oid = Some u \<Longrightarrow> user_id u = oid"
  using find_Some_holds [of "\<lambda>u. user_id u = oid" us u] by (simp add: findUserById_def)

lemma findGameById_id: "findGameById gs oid = Some g \<Longrightarrow> game_id g = oid"
  using find_Some_holds [of "\<lambda>g. game_id g = oid" gs g] by (simp add: findGameById_def)

lemma toString_inject: "toString a = toString b \<longleftrightarrow> a = b"
  by (cases a; cases b) simp

lemma filter_toString: "filter (\<lambda>x. toString x \<noteq> toString g) xs = removeAll g xs"
  by (induction xs) (auto simp: toString_inject)

lemma protected_Inr: "authMiddleware E h = Inr p \<Longrightarrow> protected E h handler st = handler p st"
  by (simp add: protected_def)

lemma library_add_handler_present:
  assumes "findUserById (users st) (p_id p) = Some u"
    and "findGameById (games st) g = Some gm"
    and "castObjectId E gameId = Some g" and "gameId \<noteq> []" and "g \<in> set (library u)"
  shows "library_add_handler E (Some gameId) p st = (reply 400 (Message ''Already in library''), st)"
  using assms findGameById_id [OF assms(2)]
  by (simp add: library_add_handler_def falsy_def)

lemma library_add_handler_ok:
  assumes "library_add_handler E gid p st = (r, st')" and "status r = 200"
  shows "\<exists>gameId g gm u. gid = Some gameId \<and> gameId \<noteq> [] \<and> castObjectId E gameId = Some g \<and>
           findGameById (games st) g = Some gm \<and> findUserById (users st) (p_id p) = Some u \<and>
           g \<notin> set (library u) \<and> r = reply 200 (LibraryMsg ''Added'' (library u @ [g])) \<and>
           st' = st\<lparr>users := saveUser (u\<lparr>library := library u @ [g]\<rparr>) (users st)\<rparr>"
  using assms
  by (auto simp: library_add_handler_def falsy_def reply_def Let_def
      split: if_splits option.splits dest: findGameById_id)

text \<open>
  Claim C3. When the authenticated user and the game named by \<open>gameId\<close> both exist and the
  game's id is already in the user's library, \<^verbatim>\<open>POST /api/library/add\<close> answers 400
  \<^verbatim>\<open>Already in library\<close> and leaves the database as it is. So an add that succeeded,
  repeated at once by the same caller, is rejected that way.
\<close>

theorem add_present_rejected:
  "(authMiddleware E h = Inr p \<and> findUserById (users st) (p_id p) = Some u \<and>
    findGameById (games st) g = Some gm \<and> castObjectId E gameId = Some g \<and> gameId \<noteq> [] \<and>
    g \<in> set (library u) \<longrightarrow>
      library_add E h (Some gameId) st = (reply 400 (Message ''Already in library''), st)) \<and>
   (library_add E h gid st0 = (r, st') \<and> status r = 200 \<longrightarrow>
      library_add E h gid st' = (reply 400 (Message ''Already in library''), st'))"
proof (intro conjI impI)
  assume "authMiddleware E h = Inr p \<and> findUserById (users st) (p_id p) = Some u \<and>
    findGameById (games st) g = Some gm \<and> castObjectId E gameId = Some g \<and> gameId \<noteq> [] \<and>
    g \<in> set (library u)"
  then show "library_add E h (Some gameId) st = (reply 400 (Message ''Already in library''), st)"
    by (auto simp: library_add_def protected_Inr library_add_handler_present)
next
  assume a: "library_add E h gid st0 = (r, st') \<and> status r = 200"
  then obtain p where p: "authMiddleware E h = Inr p"
      and hd: "library_add_handler E gid p st0 = (r, st')"
    using protected_ok [of E h "library_add_handler E gid" st0 r st']
    by (auto simp: library_add_def)
  from library_add_handler_ok [OF hd] a obtain gameId g gm u where
    f: "gid = Some gameId" "gameId \<noteq> []" "castObjectId E gameId = Some g"
       "findGameById (games st0) g = Some gm" "findUserById (users st0) (p_id p) = Some u"
       "st' = st0\<lparr>users := saveUser (u\<lparr>library := library u @ [g]\<rparr>) (users st0)\<rparr>"
    by blast
  let ?u' = "u\<lparr>library := library u @ [g]\<rparr>"
  from findUserById_id [OF f(5)] have "user_id ?u' = p_id p" by simp
  with saveUser_found [of "users st0" ?u' u] f(5)
  have fu: "findUserById (users st') (p_id p) = Some ?u'"
    by (simp add: f(6))
  have fg: "findGameById (games st') g = Some gm" using f by simp
  have gin: "g \<in> set (library ?u')" by simp
  have "library_add_handler E (Some gameId) p st' =
      (reply 400 (Message ''Already in library''), st')"
    by (rule library_add_handler_present [OF fu fg f(3) f(2) gin])
  with p f(1) show "library_add E h gid st' = (reply 400 (Message ''Already in library''), st')"
    by (simp add: library_add_def protected_Inr)
qed

lemma library_remove_handler_found:
  assumes "findUserById (users st) (p_id p) = Some u" and "gameId \<noteq> []"
  shows "library_remove_handler E (Some gameId) p st =
     (reply 200 (LibraryMsg ''Removed'' (filter (\<lambda>g. toString g \<noteq> gameId) (library u))),
      st\<lparr>users := saveUser (u\<lparr>library := filter (\<lambda>g. toString g \<noteq> gameId) (library u)\<rparr>)
                     (users st)\<rparr>)"
  using assms by (simp add: library_remove_handler_def falsy_def)

text \<open>
  Claim C4. For an existing user and a game id \<open>g\<close> sent as its string,
  \<^verbatim>\<open>POST /api/library/remove\<close> answers 200. When \<open>g\<close> is not in the library, the library in
  the answer is the old one and the database is unchanged; in every case the stored
  library afterwards is the old one without \<open>g\<close>.
\<close>

theorem remove_absent_or_present:
  assumes "authMiddleware E h = Inr p" and "findUserById (users st) (p_id p) = Some u"
    and "toString g \<noteq> []"
  shows "(g \<notin> set (library u) \<longrightarrow>
            library_remove E h (Some (toString g)) st =
              (reply 200 (LibraryMsg ''Removed'' (library u)), st)) \<and>
         (\<exists>st'. library_remove E h (Some (toString g)) st =
              (reply 200 (LibraryMsg ''Removed'' (removeAll g (library u))), st') \<and>
            findUserById (users st') (p_id p) = Some (u\<lparr>library := removeAll g (library u)\<rparr>) \<and>
            g \<notin> set (removeAll g (library u)))"
proof -
  let ?u' = "u\<lparr>library := removeAll g (library u)\<rparr>"
  let ?st' = "st\<lparr>users := saveUser ?u' (users st)\<rparr>"
  have run: "library_remove E h (Some (toString g)) st =
      (reply 200 (LibraryMsg ''Removed'' (removeAll g (library u))), ?st')"
    using assms
    by (simp add: library_remove_def protected_Inr library_remove_handler_found filter_toString)
  from findUserById_id [OF assms(2)] have "user_id ?u' = p_id p" by simp
  with saveUser_found [of "users st" ?u' u] assms(2)
  have found: "findUserById (users ?st') (p_id p) = Some ?u'" by simp
  have "?st' = st" if "g \<notin> set (library u)"
  proof -
    from that have "?u' = u" by simp
    with saveUser_same [OF assms(2)] show ?thesis by simp
  qed
  with run found show ?thesis by auto
qed

text \<open>
  Claim C9. \<^verbatim>\<open>POST /api/library/remove\<close> answers 200 for an existing user whatever the
  catalog holds: the games are not looked at. For a \<open>gameId\<close> that names no game of the
  catalog, remove succeeds where \<^verbatim>\<open>POST /api/library/add\<close> answers 404.
\<close>

theorem remove_checks_no_game:
  assumes "authMiddleware E h = Inr p" and "findUserById (users st) (p_id p) = Some u"
    and "gameId \<noteq> []"
  shows "fst (library_remove E h (Some gameId) st) =
           reply 200 (LibraryMsg ''Removed'' (filter (\<lambda>g. toString g \<noteq> gameId) (library u))) \<and>
         (castObjectId E gameId = Some g \<and> findGameById (games st) g = None \<longrightarrow>
            library_add E h (Some gameId) st = (reply 404 (Message ''Game not found''), st))"
  using assms
  by (simp add: library_remove_def library_add_def protected_Inr library_remove_handler_found
      library_add_handler_def falsy_def)

text \<open>
  Claim C10. When \<^verbatim>\<open>POST /api/library/add\<close> does not answer 200, the database, and with it
  every library, is as before; the answer is then a 400, 401, 404 or 500.
\<close>

theorem add_failure_keeps_database:
  assumes "library_add E h gid st = (r, st')" and "status r \<noteq> 200"
  shows "st' = st \<and> status r \<in> {400, 401, 404, 500}"
proof (cases "authMiddleware E h")
  case (Inl a)
  with assms show ?thesis
    by (auto simp: library_add_def protected_def dest: authMiddleware_status)
next
  case (Inr p)
  with assms have "library_add_handler E gid p st = (r, st')"
    by (simp add: library_add_def protected_Inr)
  with assms(2) show ?thesis
    by (auto simp: library_add_handler_def reply_def Let_def split: if_splits option.splits)
qed

lemma demo_auth: "authMiddleware demo_env (Some ''Bearer jwt.ann'') = Inr ann_payload"
  by (simp add: authMiddleware_def falsy_def JWT_SECRET_def demo_env_def ann_payload_def)

lemma demo_find_ann: "findUserById (users demo_db) (p_id ann_payload) = Some ann"
  by (simp add: findUserById_def demo_db_def ann_def ann_payload_def)

lemma demo_find_chess: "findGameById (games demo_db) chess_id = Some chess"
  by (simp add: findGameById_def demo_db_def chess_def)

lemma demo_cast: "castObjectId demo_env ''65000000000000000000000a'' = Some chess_id"
  by (simp add: demo_env_def chess_id_def)

lemma demo_add_fresh:
  "library_add demo_env (Some ''Bearer jwt.ann'') (Some ''65000000000000000000000a'') fresh_db =
     (reply 200 (LibraryMsg ''Added'' [chess_id]), demo_db)"
  by (simp add: library_add_def protected_Inr demo_auth library_add_handler_def falsy_def
      demo_cast findGameById_def findUserById_def fresh_db_def demo_db_def ann0_def ann_def
      bob_def chess_def ann_payload_def chess_id_def)

theorem add_present_rejected_witness:
  "authMiddleware demo_env (Some ''Bearer jwt.ann'') = Inr ann_payload \<and>
   findUserById (users demo_db) (p_id ann_payload) = Some ann \<and>
   findGameById (games demo_db) chess_id = Some chess \<and>
   castObjectId demo_env ''65000000000000000000000a'' = Some chess_id \<and>
   chess_id \<in> set (library ann) \<and>
   library_add demo_env (Some ''Bearer jwt.ann'') (Some ''65000000000000000000000a'') fresh_db =
     (reply 200 (LibraryMsg ''Added'' [chess_id]), demo_db) \<and>
   library_add demo_env (Some ''Bearer jwt.ann'') (Some ''65000000000000000000000a'') demo_db =
     (reply 400 (Message ''Already in library''), demo_db)"
  using add_present_rejected [of demo_env "Some ''Bearer jwt.ann''" ann_payload demo_db ann
      chess_id chess "''65000000000000000000000a''" "Some ''65000000000000000000000a''" fresh_db
      "reply 200 (LibraryMsg ''Added'' [chess_id])" demo_db]
    demo_auth demo_find_ann demo_find_chess demo_cast demo_add_fresh
  by (simp add: ann_def reply_def)

lemma demo_find_ann0: "findUserById (users fresh_db) (p_id ann_payload) = Some ann0"
  by (simp add: findUserById_def fresh_db_def ann0_def ann_def ann_payload_def)

theorem remove_absent_or_present_witness:
  "authMiddleware demo_env (Some ''Bearer jwt.ann'') = Inr ann_payload \<and>
   findUserById (users demo_db) (p_id ann_payload) = Some ann \<and>
   toString go_id \<noteq> [] \<and> go_id \<notin> set (library ann) \<and>
   library_remove demo_env (Some ''Bearer jwt.ann'') (Some ''65000000000000000000000b'') demo_db =
     (reply 200 (LibraryMsg ''Removed'' [chess_id]), demo_db) \<and>
   toString chess_id \<noteq> [] \<and>
   (\<exists>st'. library_remove demo_env (Some ''Bearer jwt.ann'') (Some ''65000000000000000000000a'')
           demo_db = (reply 200 (LibraryMsg ''Removed'' []), st') \<and>
          findUserById (users st') (p_id ann_payload) = Some ann0)"
  using remove_absent_or_present [OF demo_auth demo_find_ann, of go_id]
    remove_absent_or_present [OF demo_auth demo_find_ann, of chess_id]
    demo_auth demo_find_ann
  by (simp add: go_id_def chess_id_def ann_def ann0_def)

theorem remove_checks_no_game_witness:
  "authMiddleware demo_env (Some ''Bearer jwt.ann'') = Inr ann_payload \<and>
   findUserById (users demo_db) (p_id ann_payload) = Some ann \<and>
   castObjectId demo_env ''65000000000000000000000b'' = Some go_id \<and>
   findGameById (games demo_db) go_id = None \<and>
   fst (library_remove demo_env (Some ''Bearer jwt.ann'') (Some ''65000000000000000000000b'')
          demo_db) = reply 200 (LibraryMsg ''Removed'' [chess_id]) \<and>
   library_add demo_env (Some ''Bearer jwt.ann'') (Some ''65000000000000000000000b'') demo_db =
     (reply 404 (Message ''Game not found''), demo_db)"
  using remove_checks_no_game [OF demo_auth demo_find_ann, of "''65000000000000000000000b''" go_id]
    demo_auth demo_find_ann
  by (simp add: go_id_def chess_id_def ann_def demo_env_def findGameById_def demo_db_def chess_def)

lemma demo_add_again:
  "library_add demo_env (Some ''Bearer jwt.ann'') (Some ''65000000000000000000000a'') demo_db =
     (reply 400 (Message ''Already in library''), demo_db)"
  by (simp add: library_add_def protected_Inr demo_auth library_add_handler_def falsy_def
      demo_cast demo_find_ann demo_find_chess chess_def ann_def)

theorem add_failure_keeps_database_witness:
  "library_add demo_env (Some ''Bearer jwt.ann'') (Some ''65000000000000000000000a'') demo_db =
     (reply 400 (Message ''Already in library''), demo_db) \<and>
   status (reply 400 (Message ''Already in library'')) \<noteq> 200 \<and>
   snd (library_add demo_env (Some ''Bearer jwt.ann'') (Some ''65000000000000000000000a'')
          demo_db) = demo_db \<and>
   status (reply 400 (Message ''Already in library'')) \<in> {400, 401, 404, 500}"
  using add_failure_keeps_database [OF demo_add_again] demo_add_again
  by (simp add: reply_def)

subsection \<open>Prices\<close>

lemma create_game_handler_ok:
  assumes "create_game_handler E t d pr c g rd p st = (r, st')" and "status r = 200"
  shows "\<exists>gm. r = reply 200 (GameDoc gm) \<and> games st' = games st @ [gm] \<and>
           price gm = Some (case pr of None \<Rightarrow> 0 | Some v \<Rightarrow> v)"
  using assms
  by (auto simp: create_game_handler_def reply_def Let_def split: if_splits option.splits)

lemma create_game_handler_fail:
  assumes "create_game_handler E t d pr c g rd p st = (r, st')" and "status r \<noteq> 200"
  shows "st' = st"
  using assms
  by (auto simp: create_game_handler_def reply_def Let_def split: if_splits)

lemma updateGameById_set:
  "gm \<in> set (updateGameById oid f gs) \<Longrightarrow> gm \<in> set gs \<or> (\<exists>g0\<in>set gs. gm = f g0)"
  by (induction gs) (auto split: if_splits)

lemma updateGameById_found:
  "findGameById gs oid = Some g0 \<Longrightarrow> f g0 \<in> set (updateGameById oid f gs)"
  by (induction gs) (auto simp: findGameById_def split: if_splits)

lemma update_game_handler_found:
  assumes "castObjectId E i = Some oid" and "castUpdate E upd = Some f"
    and "findGameById (games st) oid = Some g0"
  shows "update_game_handler E i upd p st =
           (reply 200 (GameDoc (f g0)), st\<lparr>games := updateGameById oid f (games st)\<rparr>)"
  using assms by (simp add: update_game_handler_def)

lemma update_game_handler_games:
  assumes "update_game_handler E i upd p st = (r, st')" and "gm \<in> set (games st')"
  shows "gm \<in> set (games st) \<or> (\<exists>f g0. castUpdate E upd = Some f \<and> g0 \<in> set (games st) \<and> gm = f g0)"
proof (cases "status r = 200")
  case False
  with assms(1) have "st' = st"
    by (auto simp: update_game_handler_def reply_def split: option.splits)
  with assms(2) show ?thesis by simp
next
  case True
  with assms(1) obtain oid f where f: "castUpdate E upd = Some f"
    and "games st' = updateGameById oid f (games st)"
    by (auto simp: update_game_handler_def reply_def split: option.splits)
  with assms(2) show ?thesis
    using updateGameById_set [of gm oid f "games st"] by auto
qed

lemma protected_cases:
  assumes "protected E h handler st = (r, st')"
  shows "(status r = 401 \<and> st' = st) \<or> (\<exists>p. handler p st = (r, st'))"
  using assms by (auto simp: protected_def dest: authMiddleware_status split: sum.splits)

text \<open>
  Claim C2, as amended. A game created without a price has the price 0, and a game created
  with a price has that price, whatever its sign. \<^verbatim>\<open>PUT /api/games/:id\<close> stores the game
  as the update document of the body changes it, and answers with it; neither handler
  nor schema checks a price. So the prices stay non-negative numbers under create when
  the request has no price or a non-negative one, and under update when the change that
  the body denotes keeps them so; a request can store a negative price.
\<close>

theorem game_price:
  "(create_game E h t d pr c g rd st = (r, st') \<and> status r = 200 \<longrightarrow>
      (\<exists>gm. r = reply 200 (GameDoc gm) \<and> games st' = games st @ [gm] \<and>
         price gm = Some (case pr of None \<Rightarrow> 0 | Some v \<Rightarrow> v))) \<and>
   (authMiddleware E h = Inr p \<and> castObjectId E i = Some oid \<and> castUpdate E upd = Some f \<and>
    findGameById (games st) oid = Some g0 \<longrightarrow>
      update_game E h i upd st =
        (reply 200 (GameDoc (f g0)), st\<lparr>games := updateGameById oid f (games st)\<rparr>) \<and>
      f g0 \<in> set (updateGameById oid f (games st))) \<and>
   (create_game E h t d pr c g rd st = (r, st') \<and>
    (\<forall>gm\<in>set (games st). price_nonneg gm) \<and> (\<forall>v. pr = Some v \<longrightarrow> 0 \<le> v) \<longrightarrow>
      (\<forall>gm\<in>set (games st'). price_nonneg gm)) \<and>
   (update_game E h i upd st = (r2, st2) \<and>
    (\<forall>gm\<in>set (games st). price_nonneg gm) \<and>
    (\<forall>f' gm. castUpdate E upd = Some f' \<and> price_nonneg gm \<longrightarrow> price_nonneg (f' gm)) \<longrightarrow>
      (\<forall>gm\<in>set (games st2). price_nonneg gm))"
proof -
  have 1: "\<exists>gm. r = reply 200 (GameDoc gm) \<and> games st' = games st @ [gm] \<and>
         price gm = Some (case pr of None \<Rightarrow> 0 | Some v \<Rightarrow> v)"
    if "create_game E h t d pr c g rd st = (r, st')" and "status r = 200"
  proof -
    from that obtain q where "create_game_handler E t d pr c g rd q st = (r, st')"
      using protected_cases [of E h "create_game_handler E t d pr c g rd" st r st']
      by (auto simp: create_game_def)
    from this that(2) show ?thesis by (rule create_game_handler_ok)
  qed
  have 2: "update_game E h i upd st =
        (reply 200 (GameDoc (f g0)), st\<lparr>games := updateGameById oid f (games st)\<rparr>) \<and>
      f g0 \<in> set (updateGameById oid f (games st))"
    if "authMiddleware E h = Inr p" and "castObjectId E i = Some oid"
      and "castUpdate E upd = Some f" and "findGameById (games st) oid = Some g0"
    using that
    by (simp add: update_game_def protected_def update_game_handler_found updateGameById_found)
  have 3: "\<forall>gm\<in>set (games st'). price_nonneg gm"
    if run: "create_game E h t d pr c g rd st = (r, st')"
      and old: "\<forall>gm\<in>set (games st). price_nonneg gm" and new: "\<forall>v. pr = Some v \<longrightarrow> 0 \<le> v"
  proof (cases "status r = 200")
    case True
    from 1 [OF run True] obtain gm where "games st' = games st @ [gm]"
      and "price gm = Some (case pr of None \<Rightarrow> 0 | Some v \<Rightarrow> v)" by blast
    with old new show ?thesis by (auto simp: price_nonneg_def split: option.splits)
  next
    case False
    from run have "st' = st"
      using protected_cases [of E h "create_game_handler E t d pr c g rd" st r st']
        create_game_handler_fail [OF _ False]
      by (auto simp: create_game_def)
    with old show ?thesis by simp
  qed
  have 4: "\<forall>gm\<in>set (games st2). price_nonneg gm"
    if run: "update_game E h i upd st = (r2, st2)"
      and old: "\<forall>gm\<in>set (games st). price_nonneg gm"
      and new: "\<forall>f' gm. castUpdate E upd = Some f' \<and> price_nonneg gm \<longrightarrow> price_nonneg (f' gm)"
  proof
    fix gm assume gm: "gm \<in> set (games st2)"
    from run consider "st2 = st" | q where "update_game_handler E i upd q st = (r2, st2)"
      using protected_cases [of E h "update_game_handler E i upd" st r2 st2]
      by (auto simp: update_game_def)
    then show "price_nonneg gm"
    proof cases
      case 1
      with old gm show ?thesis by simp
    next
      case 2
      from update_game_handler_games [OF 2 gm] old new show ?thesis by blast
    qed
  qed
  show ?thesis
  proof (intro conjI impI; (elim conjE)?)
    show "\<exists>gm. r = reply 200 (GameDoc gm) \<and> games st' = games st @ [gm] \<and>
         price gm = Some (case pr of None \<Rightarrow> 0 | Some v \<Rightarrow> v)"
      if "create_game E h t d pr c g rd st = (r, st')" and "status r = 200"
      using that by (rule 1)
    show "update_game E h i upd st =
        (reply 200 (GameDoc (f g0)), st\<lparr>games := updateGameById oid f (games st)\<rparr>)"
      if "authMiddleware E h = Inr p" and "castObjectId E i = Some oid"
        and "castUpdate E upd = Some f" and "findGameById (games st) oid = Some g0"
      using 2 [OF that] by simp
    show "f g0 \<in> set (updateGameById oid f (games st))"
      if "authMiddleware E h = Inr p" and "castObjectId E i = Some oid"
        and "castUpdate E upd = Some f" and "findGameById (games st) oid = Some g0"
      using 2 [OF that] by simp
    show "\<forall>gm\<in>set (games st'). price_nonneg gm"
      if "create_game E h t d pr c g rd st = (r, st')"
        and "\<forall>gm\<in>set (games st). price_nonneg gm" and "\<forall>v. pr = Some v \<longrightarrow> 0 \<le> v"
      using that by (rule 3)
    show "\<forall>gm\<in>set (games st2). price_nonneg gm"
      if "update_game E h i upd st = (r2, st2)"
        and "\<forall>gm\<in>set (games st). price_nonneg gm"
        and "\<forall>f' gm. castUpdate E upd = Some f' \<and> price_nonneg gm \<longrightarrow> price_nonneg (f' gm)"
      using that by (rule 4)
  qed
qed

lemma demo_create:
  "create_game demo_env (Some ''Bearer jwt.ann'') (Some ''Go'') None pr None None None demo_db =
     (reply 200 (GameDoc (go (case pr of None \<Rightarrow> 0 | Some v \<Rightarrow> v))),
      \<lparr>users = [ann, bob], games = [chess, go (case pr of None \<Rightarrow> 0 | Some v \<Rightarrow> v)]\<rparr>)"
  by (simp add: create_game_def protected_def create_game_handler_def reply_def
      authMiddleware_def falsy_def JWT_SECRET_def go_def demo_env_def demo_db_def Let_def
      split: option.splits)

lemma demo_update:
  "update_game demo_env (Some ''Bearer jwt.ann'') ''65000000000000000000000a''
      (JObj [(''price'', JNum v)]) demo_db =
     (reply 200 (GameDoc (set_price (Some v) chess)),
      \<lparr>users = [ann, bob], games = [set_price (Some v) chess]\<rparr>)"
  by (simp add: update_game_def protected_def update_game_handler_def reply_def
      authMiddleware_def falsy_def JWT_SECRET_def findGameById_def demo_env_def demo_db_def
      chess_def chess_id_def)

theorem game_price_witness:
  "create_game demo_env (Some ''Bearer jwt.ann'') (Some ''Go'') None None None None None demo_db =
     (reply 200 (GameDoc (go 0)), \<lparr>users = [ann, bob], games = [chess, go 0]\<rparr>) \<and>
   status (reply 200 (GameDoc (go 0))) = 200 \<and> price (go 0) = Some 0 \<and>
   create_game demo_env (Some ''Bearer jwt.ann'') (Some ''Go'') None (Some 2) None None None
     demo_db =
     (reply 200 (GameDoc (go 2)), \<lparr>users = [ann, bob], games = [chess, go 2]\<rparr>) \<and>
   price (go 2) = Some 2 \<and>
   authMiddleware demo_env (Some ''Bearer jwt.ann'') = Inr ann_payload \<and>
   castObjectId demo_env ''65000000000000000000000a'' = Some chess_id \<and>
   castUpdate demo_env (JObj [(''price'', JNum 3)]) = Some (set_price (Some 3)) \<and>
   findGameById (games demo_db) chess_id = Some chess \<and>
   update_game demo_env (Some ''Bearer jwt.ann'') ''65000000000000000000000a''
      (JObj [(''price'', JNum 3)]) demo_db =
     (reply 200 (GameDoc (set_price (Some 3) chess)),
      \<lparr>users = [ann, bob], games = [set_price (Some 3) chess]\<rparr>) \<and>
   price (set_price (Some 3) chess) = Some 3 \<and>
   list_all price_nonneg (games demo_db) \<and>
   list_all price_nonneg [chess, go 0] \<and>
   list_all price_nonneg [chess, go 2] \<and>
   list_all price_nonneg [set_price (Some 3) chess]"
proof -
  have cu: "castUpdate demo_env (JObj [(''price'', JNum 3)]) = Some (set_price (Some 3))"
    by (simp add: demo_env_def)
  have old: "\<forall>gm\<in>set (games demo_db). price_nonneg gm"
    by (simp add: demo_db_def chess_def price_nonneg_def)
  have keep: "\<forall>f' gm. castUpdate demo_env (JObj [(''price'', JNum 3)]) = Some f' \<and> price_nonneg gm \<longrightarrow>
      price_nonneg (f' gm)"
    by (auto simp: cu set_price_def price_nonneg_def)
  note th = game_price [of demo_env "Some ''Bearer jwt.ann''" "Some ''Go''" None None None None
      None demo_db "reply 200 (GameDoc (go 0))" "\<lparr>users = [ann, bob], games = [chess, go 0]\<rparr>"
      ann_payload "''65000000000000000000000a''" chess_id "JObj [(''price'', JNum 3)]"
      "set_price (Some 3)" chess "reply 200 (GameDoc (set_price (Some 3) chess))"
      "\<lparr>users = [ann, bob], games = [set_price (Some 3) chess]\<rparr>"]
  note th2 = game_price [of demo_env "Some ''Bearer jwt.ann''" "Some ''Go''" None "Some 2" None
      None None demo_db "reply 200 (GameDoc (go 2))"
      "\<lparr>users = [ann, bob], games = [chess, go 2]\<rparr>"
      ann_payload "''65000000000000000000000a''" chess_id "JObj [(''price'', JNum 3)]"
      "set_price (Some 3)" chess "reply 200 (GameDoc (set_price (Some 3) chess))"
      "\<lparr>users = [ann, bob], games = [set_price (Some 3) chess]\<rparr>"]
  have dc2: "create_game demo_env (Some ''Bearer jwt.ann'') (Some ''Go'') None (Some 2) None None
      None demo_db =
     (reply 200 (GameDoc (go 2)), \<lparr>users = [ann, bob], games = [chess, go 2]\<rparr>)"
    using demo_create [of "Some 2"] by simp
  have s: "status (reply 200 (GameDoc (go 0))) = 200" "status (reply 200 (GameDoc (go 2))) = 200"
    by (simp_all add: reply_def)
  from th demo_create [of None] s
  have a: "\<exists>gm. reply 200 (GameDoc (go 0)) = reply 200 (GameDoc gm) \<and>
      games \<lparr>users = [ann, bob], games = [chess, go 0]\<rparr> = games demo_db @ [gm] \<and>
      price gm = Some (case None of None \<Rightarrow> 0 | Some v \<Rightarrow> v)"
    by simp
  from th2 dc2 s
  have a2: "\<exists>gm. reply 200 (GameDoc (go 2)) = reply 200 (GameDoc gm) \<and>
      games \<lparr>users = [ann, bob], games = [chess, go 2]\<rparr> = games demo_db @ [gm] \<and>
      price gm = Some (case Some 2 of None \<Rightarrow> 0 | Some v \<Rightarrow> v)"
    by simp
  from th demo_auth demo_cast cu demo_find_chess
  have b: "update_game demo_env (Some ''Bearer jwt.ann'') ''65000000000000000000000a''
      (JObj [(''price'', JNum 3)]) demo_db =
     (reply 200 (GameDoc (set_price (Some 3) chess)),
      demo_db\<lparr>games := updateGameById chess_id (set_price (Some 3)) (games demo_db)\<rparr>)"
    by simp
  from th demo_create [of None] old
  have c: "\<forall>gm\<in>set (games \<lparr>users = [ann, bob], games = [chess, go 0]\<rparr>). price_nonneg gm"
    by simp
  have nn: "\<forall>v. Some (2::real) = Some v \<longrightarrow> 0 \<le> v" by simp
  from th2 dc2 old nn
  have c2: "\<forall>gm\<in>set (games \<lparr>users = [ann, bob], games = [chess, go 2]\<rparr>). price_nonneg gm"
    by blast
  from th demo_update [of 3] old keep
  have d: "\<forall>gm\<in>set (games \<lparr>users = [ann, bob], games = [set_price (Some 3) chess]\<rparr>).
      price_nonneg gm"
    by blast
  from a have e: "price (go 0) = Some 0" by (simp add: reply_def)
  from a2 have e2: "price (go 2) = Some 2" by (simp add: reply_def)
  from s e e2 demo_create [of None] dc2 demo_auth demo_cast cu
    demo_find_chess demo_update [of 3] old c c2 d
  show ?thesis by (simp add: set_price_def list_all_iff)
qed

text \<open>Claim C2 as the specification has it fails: a game is created with the price \<open>-5\<close>,
  and the price of a game is updated to \<open>-3\<close>.\<close>

theorem negative_price_counterexample:
  "create_game demo_env (Some ''Bearer jwt.ann'') (Some ''Go'') None (Some (- 5)) None None None
     demo_db =
     (reply 200 (GameDoc (go (- 5))), \<lparr>users = [ann, bob], games = [chess, go (- 5)]\<rparr>) \<and>
   price (go (- 5)) = Some (- 5) \<and> \<not> price_nonneg (go (- 5)) \<and>
   update_game demo_env (Some ''Bearer jwt.ann'') ''65000000000000000000000a''
      (JObj [(''price'', JNum (- 3))]) demo_db =
     (reply 200 (GameDoc (set_price (Some (- 3)) chess)),
      \<lparr>users = [ann, bob], games = [set_price (Some (- 3)) chess]\<rparr>) \<and>
   price (set_price (Some (- 3)) chess) = Some (- 3) \<and>
   \<not> price_nonneg (set_price (Some (- 3)) chess)"
  using demo_create [of "Some (- 5)"] demo_update [of "- 3"]
  by (simp add: go_def set_price_def price_nonneg_def)

subsection \<open>The authentication middleware\<close>

lemma split_not_Nil: "split sep s \<noteq> []"
  by (induction s) (auto split: list.splits)

lemma hd_split: "hd (split sep s) = takeWhile (\<lambda>c. c \<noteq> sep) s"
  by (induction s) (auto split: list.splits simp: split_not_Nil)

lemma tl_split:
  "tl (split sep s) =
     (if sep \<in> set s then split sep (tl (dropWhile (\<lambda>c. c \<noteq> sep) s)) else [])"
  by (induction s) (auto split: list.splits simp: split_not_Nil)

lemma index_1:
  "xs \<noteq> [] \<Longrightarrow> index xs (Suc 0) = (case tl xs of [] \<Rightarrow> None | y # ys \<Rightarrow> Some y)"
  by (cases xs) (auto split: list.splits)

lemma index_split_1:
  "index (split sep s) (Suc 0) =
     (if sep \<in> set s then Some (takeWhile (\<lambda>c. c \<noteq> sep) (tl (dropWhile (\<lambda>c. c \<noteq> sep) s)))
      else None)"
proof (cases "sep \<in> set s")
  case False
  then show ?thesis by (simp add: index_1 split_not_Nil tl_split)
next
  case True
  let ?rest = "tl (dropWhile (\<lambda>c. c \<noteq> sep) s)"
  obtain w ws where ws: "split sep ?rest = w # ws"
    using split_not_Nil [of sep ?rest] by (cases "split sep ?rest") auto
  then have "w = takeWhile (\<lambda>c. c \<noteq> sep) ?rest"
    using hd_split [of sep ?rest] by simp
  with True ws show ?thesis by (simp add: index_1 split_not_Nil tl_split)
qed

lemma no_space_token:
  "sep \<notin> set s \<Longrightarrow> takeWhile (\<lambda>c. c \<noteq> sep) (tl (dropWhile (\<lambda>c. c \<noteq> sep) s)) = []"
  by (induction s) auto

lemma authMiddleware_eq:
  "(let token = takeWhile (\<lambda>c. c \<noteq> CHR '' '') (tl (dropWhile (\<lambda>c. c \<noteq> CHR '' '') s)) in
    (authHeader = None \<or> authHeader = Some [] \<longrightarrow>
       authMiddleware E authHeader = Inl (reply 401 (Message ''No token provided''))) \<and>
    (authHeader = Some s \<and> s \<noteq> [] \<and> token = [] \<longrightarrow>
       authMiddleware E authHeader = Inl (reply 401 (Message ''Malformed token''))) \<and>
    (authHeader = Some s \<and> s \<noteq> [] \<and> token \<noteq> [] \<and> jwt_verify E token (JWT_SECRET E) = None \<longrightarrow>
       authMiddleware E authHeader = Inl (reply 401 (Message ''Invalid token''))) \<and>
    (authHeader = Some s \<and> s \<noteq> [] \<and> token \<noteq> [] \<and>
     jwt_verify E token (JWT_SECRET E) = Some p \<longrightarrow>
       authMiddleware E authHeader = Inr p))"
proof -
  have "falsy (index (split (CHR '' '') s) (Suc 0)) \<longleftrightarrow>
        takeWhile (\<lambda>c. c \<noteq> CHR '' '') (tl (dropWhile (\<lambda>c. c \<noteq> CHR '' '') s)) = []"
    using no_space_token [of "CHR '' ''" s] by (simp add: index_split_1 falsy_def)
  moreover have "\<not> falsy (index (split (CHR '' '') s) (Suc 0)) \<Longrightarrow>
      the (index (split (CHR '' '') s) (Suc 0)) =
        takeWhile (\<lambda>c. c \<noteq> CHR '' '') (tl (dropWhile (\<lambda>c. c \<noteq> CHR '' '') s))"
    by (simp add: index_split_1 falsy_def split: if_splits)
  ultimately show ?thesis
    by (auto simp: authMiddleware_def Let_def falsy_def)
qed

lemma demo_verify_eve: "jwt_verify demo_env ''jwt.eve'' (JWT_SECRET demo_env) = None"
  by (simp add: demo_env_def)

lemma demo_verify_ann: "jwt_verify demo_env ''jwt.ann'' (JWT_SECRET demo_env) = Some ann_payload"
  by (simp add: demo_env_def JWT_SECRET_def falsy_def ann_payload_def)

lemma bearer_token:
  assumes "CHR '' '' \<notin> set tok"
  shows "takeWhile (\<lambda>c. c \<noteq> CHR '' '') (tl (dropWhile (\<lambda>c. c \<noteq> CHR '' '') (''Bearer '' @ tok))) = tok"
  using assms by (auto simp: takeWhile_eq_all_conv)

text \<open>
  Claim C8, as amended: the cases are those of the header's text, whatever its scheme.
  Let the token be the text between the first and the second space of the
  \<^verbatim>\<open>Authorization\<close> header (empty when the header has no space). A protected route
  answers 401 \<^verbatim>\<open>No token provided\<close> when the header is absent or empty, 401
  \<^verbatim>\<open>Malformed token\<close> when that text is empty, and 401 \<^verbatim>\<open>Invalid token\<close> when \<^verbatim>\<open>jwt.verify\<close>
  rejects it under the server's secret; in these three cases the handler does not run
  and the database is as before. In the one remaining case the handler runs with the
  verified payload. The four cases exclude each other and cover every header. The five
  routes that write games and libraries are protected in this way.
\<close>

theorem protected_authentication:
  "(let token = takeWhile (\<lambda>c. c \<noteq> CHR '' '') (tl (dropWhile (\<lambda>c. c \<noteq> CHR '' '') s)) in
    (authHeader = None \<or> authHeader = Some [] \<longrightarrow>
       protected E authHeader handler st = (reply 401 (Message ''No token provided''), st)) \<and>
    (authHeader = Some s \<and> s \<noteq> [] \<and> token = [] \<longrightarrow>
       protected E authHeader handler st = (reply 401 (Message ''Malformed token''), st)) \<and>
    (authHeader = Some s \<and> s \<noteq> [] \<and> token \<noteq> [] \<and> jwt_verify E token (JWT_SECRET E) = None \<longrightarrow>
       protected E authHeader handler st = (reply 401 (Message ''Invalid token''), st)) \<and>
    (authHeader = Some s \<and> s \<noteq> [] \<and> token \<noteq> [] \<and>
     jwt_verify E token (JWT_SECRET E) = Some p \<longrightarrow>
       protected E authHeader handler st = handler p st)) \<and>
   create_game E authHeader t d pr c g rd st =
     protected E authHeader (create_game_handler E t d pr c g rd) st \<and>
   update_game E authHeader i upd st = protected E authHeader (update_game_handler E i upd) st \<and>
   delete_game E authHeader i st = protected E authHeader (delete_game_handler E i) st \<and>
   library_add E authHeader gameId st = protected E authHeader (library_add_handler E gameId) st \<and>
   library_remove E authHeader gameId st =
     protected E authHeader (library_remove_handler E gameId) st"
  using authMiddleware_eq [of s authHeader E p]
  by (simp add: Let_def protected_def create_game_def update_game_def delete_game_def
      library_add_def library_remove_def)

lemma demo_verify_bad: "jwt_verify demo_env ''%%%'' (JWT_SECRET demo_env) = None"
  by (simp add: demo_env_def)

theorem protected_authentication_witness:
  "library_remove demo_env None (Some ''65000000000000000000000b'') demo_db =
     (reply 401 (Message ''No token provided''), demo_db) \<and>
   library_remove demo_env (Some ''Bearer'') (Some ''65000000000000000000000b'') demo_db =
     (reply 401 (Message ''Malformed token''), demo_db) \<and>
   jwt_verify demo_env ''jwt.eve'' (JWT_SECRET demo_env) = None \<and>
   library_remove demo_env (Some ''Bearer jwt.eve'') (Some ''65000000000000000000000b'') demo_db =
     (reply 401 (Message ''Invalid token''), demo_db) \<and>
   jwt_verify demo_env ''jwt.ann'' (JWT_SECRET demo_env) = Some ann_payload \<and>
   library_remove demo_env (Some ''Bearer jwt.ann'') (Some ''65000000000000000000000b'') demo_db =
     library_remove_handler demo_env (Some ''65000000000000000000000b'') ann_payload demo_db \<and>
   library_remove_handler demo_env (Some ''65000000000000000000000b'') ann_payload demo_db =
     (reply 200 (LibraryMsg ''Removed'' [chess_id]), demo_db)"
proof -
  let ?g = "Some ''65000000000000000000000b''"
  let ?h = "library_remove_handler demo_env ?g"
  note th = protected_authentication [where E = demo_env and handler = ?h and st = demo_db
      and gameId = ?g and p = ann_payload]
  have 1: "library_remove demo_env None ?g demo_db =
      (reply 401 (Message ''No token provided''), demo_db)"
    using th [of "[]" None] by simp
  have 2: "library_remove demo_env (Some ''Bearer'') ?g demo_db =
      (reply 401 (Message ''Malformed token''), demo_db)"
    using th [of "''Bearer''" "Some ''Bearer''"] by simp
  have 3: "library_remove demo_env (Some ''Bearer jwt.eve'') ?g demo_db =
      (reply 401 (Message ''Invalid token''), demo_db)"
    using th [of "''Bearer jwt.eve''" "Some ''Bearer jwt.eve''"] demo_verify_eve by simp
  have 4: "library_remove demo_env (Some ''Bearer jwt.ann'') ?g demo_db = ?h ann_payload demo_db"
    using th [of "''Bearer jwt.ann''" "Some ''Bearer jwt.ann''"] demo_verify_ann by simp
  have 5: "?h ann_payload demo_db = (reply 200 (LibraryMsg ''Removed'' [chess_id]), demo_db)"
    using library_remove_handler_found [OF demo_find_ann, of "''65000000000000000000000b''" demo_env]
      saveUser_same [OF demo_find_ann]
    by (simp add: ann_def chess_id_def)
  from 1 2 3 4 5 demo_verify_eve demo_verify_ann show ?thesis by simp
qed

text \<open>Claim C8 as the specification has it fails. The word before the first space is
  never looked at: a request that supplies no bearer credential but the header
  \<^verbatim>\<open>Basic\<close> followed by a valid token is authenticated, where the claim has a missing
  token. A valid token sent without a scheme, or after two spaces, is answered
  \<^verbatim>\<open>Malformed token\<close>, and a credential that is no token is answered \<^verbatim>\<open>Invalid token\<close>.\<close>

theorem scheme_not_checked_counterexample:
  "authMiddleware demo_env (Some ''Basic jwt.ann'') = Inr ann_payload \<and>
   library_remove demo_env (Some ''Basic jwt.ann'') (Some ''65000000000000000000000b'') demo_db =
     (reply 200 (LibraryMsg ''Removed'' [chess_id]), demo_db) \<and>
   jwt_verify demo_env ''jwt.ann'' (JWT_SECRET demo_env) = Some ann_payload \<and>
   authMiddleware demo_env (Some ''jwt.ann'') = Inl (reply 401 (Message ''Malformed token'')) \<and>
   authMiddleware demo_env (Some ''Bearer  jwt.ann'') =
     Inl (reply 401 (Message ''Malformed token'')) \<and>
   jwt_verify demo_env ''%%%'' (JWT_SECRET demo_env) = None \<and>
   authMiddleware demo_env (Some ''Bearer %%%'') = Inl (reply 401 (Message ''Invalid token''))"
  by (simp add: authMiddleware_def library_remove_def protected_def library_remove_handler_def
      falsy_def JWT_SECRET_def findUserById_def demo_env_def demo_db_def ann_payload_def ann_def
      bob_def chess_id_def reply_def)

subsection \<open>Registration and login\<close>

lemma dec_replicate:
  "dec_strs (replicate m (CHR ''x'') @ rest) n acc = dec_strs rest (n + m) acc"
  by (induction m arbitrary: n) simp_all

lemma dec_enc_str: "dec_strs (enc_str s @ CHR ''|'' # rest) 0 acc = (acc @ s) # dec_strs rest 0 []"
  by (induction s arbitrary: acc) (simp_all add: dec_replicate)

lemma dec_enc_strs: "dec_strs (enc_strs ss) 0 [] = ss"
  by (induction ss) (simp_all add: enc_strs_def dec_enc_str)

lemma in_enc_str: "c \<in> set (enc_str s) \<Longrightarrow> c = CHR ''x'' \<or> c = CHR ''.''"
  by (induction s) auto

lemma in_enc_strs: "c \<in> set (enc_strs ss) \<Longrightarrow> c = CHR ''x'' \<or> c = CHR ''.'' \<or> c = CHR ''|''"
  by (induction ss) (auto simp: enc_strs_def dest: in_enc_str)

lemma toy_roundtrip: "toy_verify (toy_sign pl k opts) k = Some pl"
  by (cases pl; cases "p_id pl") (auto simp: toy_verify_def toy_sign_def dec_enc_strs)

lemma toy_format: "toy_sign pl k opts \<noteq> [] \<and> CHR '' '' \<notin> set (toy_sign pl k opts)"
proof
  show "toy_sign pl k opts \<noteq> []" by (simp add: toy_sign_def enc_strs_def)
  show "CHR '' '' \<notin> set (toy_sign pl k opts)"
    unfolding toy_sign_def by (auto dest: in_enc_strs)
qed


lemma find_None_all: "find P xs = None \<longleftrightarrow> (\<forall>x\<in>set xs. \<not> P x)"
  by (induction xs) auto

lemma find_unique:
  assumes "u \<in> set xs" and "P u" and "\<forall>x\<in>set xs. P x \<longrightarrow> x = u"
  shows "find P xs = Some u"
proof (cases "find P xs")
  case None
  then have "\<forall>x\<in>set xs. \<not> P x" by (simp add: find_None_all)
  with assms(1,2) show ?thesis by blast
next
  case (Some x)
  from find_Some_holds [OF Some] have "P x" and "x \<in> set xs" by simp_all
  with assms(3) have "x = u" by blast
  with Some show ?thesis by simp
qed

lemma register_cases:
  assumes "register E un em pw st = (r, st')"
  shows "st' = st \<or>
     (\<exists>n e p. un = Some n \<and> em = Some e \<and> pw = Some p \<and>
        (\<forall>u\<in>set (users st). email u \<noteq> toLowerCase E e \<and> username u \<noteq> n) \<and>
        st' = st\<lparr>users := users st @
                 [\<lparr>user_id = newObjectId E, username = n, email = toLowerCase E e,
                   passwordHash = bcrypt_hash E p 10, isAdmin = False, library = []\<rparr>]\<rparr>)"
proof (cases "falsy un \<or> falsy em \<or> falsy pw")
  case True
  with assms show ?thesis by (simp add: register_def)
next
  case present: False
  then obtain n e p where f: "un = Some n" "em = Some e" "pw = Some p"
    by (auto simp: falsy_def)
  show ?thesis
  proof (cases "find (\<lambda>u. email u = toLowerCase E e \<or> username u = n) (users st)")
    case (Some x)
    with assms present f show ?thesis by (simp add: register_def)
  next
    case None
    then have fresh: "\<forall>u\<in>set (users st). email u \<noteq> toLowerCase E e \<and> username u \<noteq> n"
      by (simp add: find_None_all)
    from assms present f None
    have "st' = st \<or> st' = st\<lparr>users := users st @
                 [\<lparr>user_id = newObjectId E, username = n, email = toLowerCase E e,
                   passwordHash = bcrypt_hash E p 10, isAdmin = False, library = []\<rparr>]\<rparr>"
      by (simp add: register_def Let_def split: if_splits)
    with f fresh show ?thesis by blast
  qed
qed

lemma register_found:
  assumes "find (\<lambda>x. email x = toLowerCase E (the em) \<or> username x = the un) (users st) \<noteq> None"
  shows "register E un em pw st =
           (if falsy un \<or> falsy em \<or> falsy pw then reply 400 (Message ''Missing fields'')
            else reply 400 (Message ''Email or username already in use''), st)"
  using assms by (cases "find (\<lambda>x. email x = toLowerCase E (the em) \<or> username x = the un) (users st)")
    (simp_all add: register_def)

lemma register_unique:
  assumes "unique_identities (users st)"
  shows "unique_identities (users (snd (register E un em pw st)))"
proof -
  obtain r st' where run: "register E un em pw st = (r, st')"
    by (cases "register E un em pw st")
  from register_cases [OF run] show ?thesis
  proof
    assume "st' = st"
    with run assms show ?thesis by simp
  next
    assume "\<exists>n e p. un = Some n \<and> em = Some e \<and> pw = Some p \<and>
        (\<forall>u\<in>set (users st). email u \<noteq> toLowerCase E e \<and> username u \<noteq> n) \<and>
        st' = st\<lparr>users := users st @
                 [\<lparr>user_id = newObjectId E, username = n, email = toLowerCase E e,
                   passwordHash = bcrypt_hash E p 10, isAdmin = False, library = []\<rparr>]\<rparr>"
    then obtain n e p where fresh: "\<forall>u\<in>set (users st). email u \<noteq> toLowerCase E e \<and> username u \<noteq> n"
      and eq: "st' = st\<lparr>users := users st @
                 [\<lparr>user_id = newObjectId E, username = n, email = toLowerCase E e,
                   passwordHash = bcrypt_hash E p 10, isAdmin = False, library = []\<rparr>]\<rparr>"
      by blast
    from eq have st': "users st' = users st @
                 [\<lparr>user_id = newObjectId E, username = n, email = toLowerCase E e,
                   passwordHash = bcrypt_hash E p 10, isAdmin = False, library = []\<rparr>]"
      by simp
    from fresh have "n \<notin> set (map username (users st))" "toLowerCase E e \<notin> set (map email (users st))"
      by auto
    with assms st' have "unique_identities (users st')"
      by (simp add: unique_identities_def)
    with run show ?thesis by simp
  qed
qed

text \<open>
  Claim C5. A registration whose username is that of an existing user, or whose email
  after \<^verbatim>\<open>toLowerCase\<close> is the email of one, is answered 400 and leaves the database as it
  is; with the three fields present the message is \<^verbatim>\<open>Email or username already in use\<close>
  (with one missing, the presence check has answered before). Usernames are compared as
  they are, emails as the schema's setter normalises them. Every registration keeps
  usernames and emails unique.
\<close>

theorem register_duplicate:
  "(u \<in> set (users st) \<and>
    (username' = Some (username u) \<or> (\<exists>em. email' = Some em \<and> toLowerCase E em = email u)) \<longrightarrow>
      status (fst (register E username' email' password' st)) = 400 \<and>
      snd (register E username' email' password' st) = st) \<and>
   (u \<in> set (users st) \<and> (un = username u \<or> toLowerCase E em = email u) \<and>
    un \<noteq> [] \<and> em \<noteq> [] \<and> pw \<noteq> [] \<longrightarrow>
      register E (Some un) (Some em) (Some pw) st =
        (reply 400 (Message ''Email or username already in use''), st)) \<and>
   (unique_identities (users st) \<longrightarrow>
      unique_identities (users (snd (register E username' email' password' st))))"
proof -
  have 1: "status (fst (register E username' email' password' st)) = 400 \<and>
      snd (register E username' email' password' st) = st"
    if "u \<in> set (users st)"
      and "username' = Some (username u) \<or> (\<exists>em. email' = Some em \<and> toLowerCase E em = email u)"
  proof -
    from that
    have "find (\<lambda>x. email x = toLowerCase E (the email') \<or> username x = the username')
            (users st) \<noteq> None"
      by (auto simp: find_None_all)
    from register_found [OF this] show ?thesis by (simp add: reply_def)
  qed
  have 2: "register E (Some un) (Some em) (Some pw) st =
        (reply 400 (Message ''Email or username already in use''), st)"
    if "u \<in> set (users st)" and "un = username u \<or> toLowerCase E em = email u"
      and "un \<noteq> []" and "em \<noteq> []" and "pw \<noteq> []"
  proof -
    from that(1,2)
    have "find (\<lambda>x. email x = toLowerCase E (the (Some em)) \<or> username x = the (Some un))
            (users st) \<noteq> None"
      by (auto simp: find_None_all)
    from register_found [OF this] that(3-5) show ?thesis by (simp add: falsy_def)
  qed
  show ?thesis
  proof (intro conjI impI; (elim conjE)?)
    show "status (fst (register E username' email' password' st)) = 400"
      if "u \<in> set (users st)"
        and "username' = Some (username u) \<or> (\<exists>em. email' = Some em \<and> toLowerCase E em = email u)"
      using 1 [OF that] by simp
    show "snd (register E username' email' password' st) = st"
      if "u \<in> set (users st)"
        and "username' = Some (username u) \<or> (\<exists>em. email' = Some em \<and> toLowerCase E em = email u)"
      using 1 [OF that] by simp
    show "register E (Some un) (Some em) (Some pw) st =
        (reply 400 (Message ''Email or username already in use''), st)"
      if "u \<in> set (users st)" and "un = username u \<or> toLowerCase E em = email u"
        and "un \<noteq> []" and "em \<noteq> []" and "pw \<noteq> []"
      using that by (rule 2)
    show "unique_identities (users (snd (register E username' email' password' st)))"
      if "unique_identities (users st)"
      using that by (rule register_unique)
  qed
qed

lemma authMiddleware_bearer:
  assumes "tok \<noteq> []" and "CHR '' '' \<notin> set tok"
    and "jwt_verify E tok (JWT_SECRET E) = Some p"
  shows "authMiddleware E (Some (''Bearer '' @ tok)) = Inr p"
proof -
  from assms(2) have "takeWhile (\<lambda>c. c \<noteq> CHR '' '') tok = tok"
    by (auto simp: takeWhile_eq_all_conv)
  with assms(1,3) show ?thesis
    using authMiddleware_eq [of "''Bearer '' @ tok" "Some (''Bearer '' @ tok)" E p]
    by (simp add: Let_def del: takeWhile_eq_all_conv)
qed

text \<open>
  Claim C6, as amended: the username must also have at least three characters. For a
  registration with the three fields present, a username and an email that no user has,
  and a username of at least three characters, \<^verbatim>\<open>register\<close> answers 200 and appends
  one user, with \<open>isAdmin = False\<close> and an empty library. Its \<open>passwordHash\<close> is what
  \<^verbatim>\<open>bcrypt.hash(password, 10)\<close> returned, and is not the password. The token of the answer,
  sent as bearer credential to the server, passes the middleware, which hands on the
  id, the username and the \<open>isAdmin\<close> of the stored user.

  The hypotheses on the libraries are their contracts: \<^verbatim>\<open>toLowerCase\<close> of a non-empty
  string is non-empty; bcrypt returns a non-empty string other than its input; and, for
  every payload and key, a token that \<^verbatim>\<open>jwt.sign\<close> issued for seven days is non-empty,
  has no space, and is verified to its payload by \<^verbatim>\<open>jwt.verify\<close> with the same key (at
  the time of \<open>E'\<close>, within the seven days). The server verifies with the secret it
  signed with.
\<close>

theorem register_valid:
  assumes "un \<noteq> []" and "em \<noteq> []" and "pw \<noteq> []"
    and "\<forall>u\<in>set (users st). username u \<noteq> un \<and> email u \<noteq> toLowerCase E em"
    and "3 \<le> length un"
    and "toLowerCase E em \<noteq> []"
    and "\<forall>p. bcrypt_hash E p 10 \<noteq> [] \<and> bcrypt_hash E p 10 \<noteq> p"
    and "\<forall>pl k. jwt_verify E' (jwt_sign E pl k ''7d'') k = Some pl \<and>
           jwt_sign E pl k ''7d'' \<noteq> [] \<and> CHR '' '' \<notin> set (jwt_sign E pl k ''7d'')"
    and "env_JWT_SECRET E' = env_JWT_SECRET E"
  shows "\<exists>token usr.
           register E (Some un) (Some em) (Some pw) st =
             (reply 200 (AuthOk token (user_id usr) (username usr) (email usr) (isAdmin usr)),
              st\<lparr>users := users st @ [usr]\<rparr>) \<and>
           user_id usr = newObjectId E \<and> username usr = un \<and> email usr = toLowerCase E em \<and>
           isAdmin usr = False \<and> library usr = [] \<and>
           passwordHash usr = bcrypt_hash E pw 10 \<and> passwordHash usr \<noteq> pw \<and>
           authMiddleware E' (Some (''Bearer '' @ token)) =
             Inr \<lparr>p_id = user_id usr, p_username = username usr, p_isAdmin = isAdmin usr\<rparr>"
proof -
  let ?usr = "\<lparr>user_id = newObjectId E, username = un, email = toLowerCase E em,
               passwordHash = bcrypt_hash E pw 10, isAdmin = False, library = []\<rparr>"
  let ?pl = "\<lparr>p_id = newObjectId E, p_username = un, p_isAdmin = False\<rparr>"
  let ?token = "jwt_sign E ?pl (JWT_SECRET E) ''7d''"
  from assms(4) have "find (\<lambda>u. email u = toLowerCase E em \<or> username u = un) (users st) = None"
    by (auto simp: find_None_all)
  moreover from assms(1,5,6,7) have "validateUser ?usr"
    by (simp add: validateUser_def)
  ultimately have run: "register E (Some un) (Some em) (Some pw) st =
      (reply 200 (AuthOk ?token (user_id ?usr) (username ?usr) (email ?usr) (isAdmin ?usr)),
       st\<lparr>users := users st @ [?usr]\<rparr>)"
    using assms(1-3) by (simp add: register_def falsy_def Let_def)
  from assms(9) have secret: "JWT_SECRET E' = JWT_SECRET E"
    by (simp add: JWT_SECRET_def)
  from assms(8) have tok: "?token \<noteq> []" "CHR '' '' \<notin> set ?token"
    and ver: "jwt_verify E' ?token (JWT_SECRET E') = Some ?pl"
    by (simp_all add: secret)
  have "authMiddleware E' (Some (''Bearer '' @ ?token)) = Inr ?pl"
    using tok ver by (rule authMiddleware_bearer)
  with run assms(7) show ?thesis
    by (intro exI [of _ ?token] exI [of _ ?usr]) simp
qed

text \<open>
  Claim C7, as amended: the identity must match no other user. When the identity is the
  username of the user \<open>u\<close>, or is in any letter case the email of \<open>u\<close>, and no other user
  has it as username or (after \<^verbatim>\<open>toLowerCase\<close>) as email, \<^verbatim>\<open>login\<close> with a non-empty password
  answers 200 with a token for \<open>u\<close> if \<^verbatim>\<open>bcrypt.compare\<close> accepts the password against the
  stored hash of \<open>u\<close>, and 400 \<^verbatim>\<open>Invalid credentials\<close> if not.
\<close>

theorem login_unambiguous:
  assumes "u \<in> set (users st)"
    and "username u = ident \<or> email u = toLowerCase E ident"
    and "\<forall>u'\<in>set (users st). username u' = ident \<or> email u' = toLowerCase E ident \<longrightarrow> u' = u"
    and "ident \<noteq> []" and "pw \<noteq> []"
  shows "login E (Some ident) (Some pw) st =
     (if bcrypt_compare E pw (passwordHash u)
      then reply 200 (AuthOk (jwt_sign E \<lparr>p_id = user_id u, p_username = username u,
                                           p_isAdmin = isAdmin u\<rparr> (JWT_SECRET E) ''7d'')
                        (user_id u) (username u) (email u) (isAdmin u))
      else reply 400 (Message ''Invalid credentials''))"
proof -
  have "find (\<lambda>x. email x = toLowerCase E ident \<or> username x = ident) (users st) = Some u"
  proof (rule find_unique [OF assms(1)])
    from assms(2) show "email u = toLowerCase E ident \<or> username u = ident" by blast
    from assms(3) show "\<forall>x\<in>set (users st).
        email x = toLowerCase E ident \<or> username x = ident \<longrightarrow> x = u" by blast
  qed
  with assms(4,5) show ?thesis
    by (simp add: login_def falsy_def Let_def)
qed


lemma ascii_lower:
  "ascii_toLowerCase ''A@X.com'' = ''a@x.com''" "ascii_toLowerCase ''A@X.COM'' = ''a@x.com''"
  "ascii_toLowerCase ''al@x.com'' = ''al@x.com''" "ascii_toLowerCase ''carl@x.com'' = ''carl@x.com''"
  "ascii_toLowerCase ''dan@x.com'' = ''dan@x.com''"
  by code_simp+

lemma demo_lower:
  "toLowerCase demo_env ''A@X.com'' = ''a@x.com''" "toLowerCase demo_env ''A@X.COM'' = ''a@x.com''"
  "toLowerCase demo_env ''al@x.com'' = ''al@x.com''"
  "toLowerCase demo_env ''carl@x.com'' = ''carl@x.com''"
  "toLowerCase demo_env ''dan@x.com'' = ''dan@x.com''"
  by (simp_all add: demo_env_def ascii_lower)

lemma demo_unique: "unique_identities (users demo_db)"
  by (simp add: unique_identities_def demo_db_def ann_def bob_def)

theorem register_duplicate_witness:
  "ann \<in> set (users demo_db) \<and> toLowerCase demo_env ''A@X.com'' = email ann \<and>
   register demo_env (Some ''zed'') (Some ''A@X.com'') (Some ''pw'') demo_db =
     (reply 400 (Message ''Email or username already in use''), demo_db) \<and>
   status (fst (register demo_env (Some ''zed'') (Some ''A@X.com'') (Some ''pw'') demo_db)) = 400 \<and>
   snd (register demo_env (Some ''zed'') (Some ''A@X.com'') (Some ''pw'') demo_db) = demo_db \<and>
   unique_identities (users demo_db) \<and>
   unique_identities
     (users (snd (register demo_env (Some ''zed'') (Some ''A@X.com'') (Some ''pw'') demo_db)))"
proof -
  have a: "ann \<in> set (users demo_db)" by (simp add: demo_db_def)
  have b: "toLowerCase demo_env ''A@X.com'' = email ann" by (simp add: demo_lower ascii_lower ann_def)
  note th = register_duplicate [of ann demo_db "Some ''zed''" "Some ''A@X.com''" demo_env
      "Some ''pw''" "''zed''" "''A@X.com''" "''pw''"]
  from th a b have 1: "status (fst (register demo_env (Some ''zed'') (Some ''A@X.com'') (Some ''pw'')
      demo_db)) = 400 \<and>
    snd (register demo_env (Some ''zed'') (Some ''A@X.com'') (Some ''pw'') demo_db) = demo_db"
    by blast
  from th a b have 2: "register demo_env (Some ''zed'') (Some ''A@X.com'') (Some ''pw'') demo_db =
     (reply 400 (Message ''Email or username already in use''), demo_db)"
    by simp
  from th demo_unique have 3: "unique_identities
     (users (snd (register demo_env (Some ''zed'') (Some ''A@X.com'') (Some ''pw'') demo_db)))"
    by blast
  from a b 1 2 3 demo_unique show ?thesis by blast
qed

lemma codec_register:
  "register codec_env (Some ''ann'') (Some ''A@X.com'') (Some ''p12345'') empty_db =
     (reply 200 (AuthOk (toy_sign ann_payload ''secretllavesecreta'' ''7d'')
        (ObjectId ''650000000000000000000001'') ''ann'' ''a@x.com'' False),
      \<lparr>users = [ann0], games = []\<rparr>)"
  by (simp add: register_def falsy_def ascii_lower validateUser_def JWT_SECRET_def empty_db_def
      codec_env_def demo_env_def ann0_def ann_def ann_payload_def)

lemma codec_bcrypt: "bcrypt_hash codec_env p 10 \<noteq> [] \<and> bcrypt_hash codec_env p 10 \<noteq> p"
  by (simp add: codec_env_def demo_env_def)

lemma codec_jwt:
  "jwt_verify codec_env (jwt_sign codec_env pl k ''7d'') k = Some pl \<and>
   jwt_sign codec_env pl k ''7d'' \<noteq> [] \<and> CHR '' '' \<notin> set (jwt_sign codec_env pl k ''7d'')"
  using toy_format [of pl k "''7d''"]
  by (simp add: codec_env_def demo_env_def toy_roundtrip)

theorem register_valid_witness:
  "users empty_db = [] \<and> 3 \<le> length ''ann'' \<and> toLowerCase codec_env ''A@X.com'' = ''a@x.com'' \<and>
   (\<forall>p. bcrypt_hash codec_env p 10 \<noteq> [] \<and> bcrypt_hash codec_env p 10 \<noteq> p) \<and>
   (\<forall>pl k. jwt_verify codec_env (jwt_sign codec_env pl k ''7d'') k = Some pl \<and>
      jwt_sign codec_env pl k ''7d'' \<noteq> [] \<and> CHR '' '' \<notin> set (jwt_sign codec_env pl k ''7d'')) \<and>
   register codec_env (Some ''ann'') (Some ''A@X.com'') (Some ''p12345'') empty_db =
     (reply 200 (AuthOk (toy_sign ann_payload ''secretllavesecreta'' ''7d'')
        (user_id ann0) (username ann0) (email ann0) (isAdmin ann0)),
      \<lparr>users = [ann0], games = []\<rparr>) \<and>
   isAdmin ann0 = False \<and> passwordHash ann0 = bcrypt_hash codec_env ''p12345'' 10 \<and>
   passwordHash ann0 \<noteq> ''p12345'' \<and>
   authMiddleware codec_env
     (Some (''Bearer '' @ toy_sign ann_payload ''secretllavesecreta'' ''7d'')) =
     Inr \<lparr>p_id = user_id ann0, p_username = username ann0, p_isAdmin = isAdmin ann0\<rparr>"
proof -
  have e: "users empty_db = []" by (simp add: empty_db_def)
  have l: "toLowerCase codec_env ''A@X.com'' = ''a@x.com''"
    by (simp add: codec_env_def demo_env_def ascii_lower)
  have b: "\<forall>p. bcrypt_hash codec_env p 10 \<noteq> [] \<and> bcrypt_hash codec_env p 10 \<noteq> p"
    using codec_bcrypt by blast
  have j: "\<forall>pl k. jwt_verify codec_env (jwt_sign codec_env pl k ''7d'') k = Some pl \<and>
      jwt_sign codec_env pl k ''7d'' \<noteq> [] \<and> CHR '' '' \<notin> set (jwt_sign codec_env pl k ''7d'')"
    using codec_jwt by blast
  have "\<exists>token usr.
      register codec_env (Some ''ann'') (Some ''A@X.com'') (Some ''p12345'') empty_db =
        (reply 200 (AuthOk token (user_id usr) (username usr) (email usr) (isAdmin usr)),
         empty_db\<lparr>users := users empty_db @ [usr]\<rparr>) \<and>
      user_id usr = newObjectId codec_env \<and> username usr = ''ann'' \<and>
      email usr = toLowerCase codec_env ''A@X.com'' \<and> isAdmin usr = False \<and> library usr = [] \<and>
      passwordHash usr = bcrypt_hash codec_env ''p12345'' 10 \<and> passwordHash usr \<noteq> ''p12345'' \<and>
      authMiddleware codec_env (Some (''Bearer '' @ token)) =
        Inr \<lparr>p_id = user_id usr, p_username = username usr, p_isAdmin = isAdmin usr\<rparr>"
    by (rule register_valid [OF _ _ _ _ _ _ b j refl]) (simp_all add: e l)
  then obtain token usr where
    run: "register codec_env (Some ''ann'') (Some ''A@X.com'') (Some ''p12345'') empty_db =
        (reply 200 (AuthOk token (user_id usr) (username usr) (email usr) (isAdmin usr)),
         empty_db\<lparr>users := users empty_db @ [usr]\<rparr>)"
    and h: "passwordHash usr = bcrypt_hash codec_env ''p12345'' 10" "passwordHash usr \<noteq> ''p12345''"
      "isAdmin usr = False"
    and a: "authMiddleware codec_env (Some (''Bearer '' @ token)) =
        Inr \<lparr>p_id = user_id usr, p_username = username usr, p_isAdmin = isAdmin usr\<rparr>"
    by blast
  from run codec_register have "token = toy_sign ann_payload ''secretllavesecreta'' ''7d''"
    and "usr = ann0"
    by (simp_all add: reply_def empty_db_def)
  with run h a e l b j show ?thesis
    by (simp add: empty_db_def)
qed

text \<open>Claim C6 as the specification has it fails: the username \<^verbatim>\<open>al\<close> and the email are
  fresh and the three fields are present, but \<^verbatim>\<open>minlength: 3\<close> of the schema makes
  \<^verbatim>\<open>save()\<close> throw; the answer is 500 and no user is stored.\<close>

theorem short_username_counterexample:
  "register demo_env (Some ''al'') (Some ''al@x.com'') (Some ''p12345'') empty_db =
     (reply 500 (Message ''Server error''), empty_db)"
  by (simp add: register_def falsy_def demo_lower validateUser_def empty_db_def)

lemma demo_login:
  "login demo_env (Some ''A@X.COM'') (Some pw) demo_db =
     (if pw = ''p12345''
      then reply 200 (AuthOk ''jwt.ann'' (ObjectId ''650000000000000000000001'') ''ann'' ''a@x.com'' False)
      else if pw = [] then reply 400 (Message ''Missing fields'')
      else reply 400 (Message ''Invalid credentials''))"
  by (simp add: login_def falsy_def demo_lower ascii_lower JWT_SECRET_def demo_env_def demo_db_def ann_def bob_def)

theorem login_unambiguous_witness:
  "ann \<in> set (users demo_db) \<and> email ann = toLowerCase demo_env ''A@X.COM'' \<and>
   username bob \<noteq> ''A@X.COM'' \<and> email bob \<noteq> toLowerCase demo_env ''A@X.COM'' \<and>
   users demo_db = [ann, bob] \<and>
   bcrypt_compare demo_env ''p12345'' (passwordHash ann) \<and>
   login demo_env (Some ''A@X.COM'') (Some ''p12345'') demo_db =
     reply 200 (AuthOk ''jwt.ann'' (user_id ann) (username ann) (email ann) (isAdmin ann)) \<and>
   \<not> bcrypt_compare demo_env ''hunter2'' (passwordHash ann) \<and>
   login demo_env (Some ''A@X.COM'') (Some ''hunter2'') demo_db =
     reply 400 (Message ''Invalid credentials'')"
proof -
  have a: "ann \<in> set (users demo_db)" by (simp add: demo_db_def)
  have b: "username ann = ''A@X.COM'' \<or> email ann = toLowerCase demo_env ''A@X.COM''"
    by (simp add: demo_lower ascii_lower ann_def)
  have c: "\<forall>u'\<in>set (users demo_db).
      username u' = ''A@X.COM'' \<or> email u' = toLowerCase demo_env ''A@X.COM'' \<longrightarrow> u' = ann"
    by (simp add: demo_lower ascii_lower demo_db_def bob_def)
  note th = login_unambiguous [OF a b c]
  have "login demo_env (Some ''A@X.COM'') (Some ''p12345'') demo_db =
     reply 200 (AuthOk ''jwt.ann'' (user_id ann) (username ann) (email ann) (isAdmin ann))"
    using th [where pw = "''p12345''"] by (simp add: demo_env_def ann_def JWT_SECRET_def falsy_def)
  moreover have "login demo_env (Some ''A@X.COM'') (Some ''hunter2'') demo_db =
     reply 400 (Message ''Invalid credentials'')"
    using th [where pw = "''hunter2''"] by (simp add: demo_env_def ann_def)
  ultimately show ?thesis
    by (simp add: demo_lower ascii_lower demo_db_def ann_def bob_def demo_env_def)
qed

text \<open>Claim C7 as the specification has it fails. \<^verbatim>\<open>register\<close> compares usernames with
  usernames and emails with emails only, so Carl can register the username
  \<^verbatim>\<open>dan@x.com\<close> and Dan the email \<^verbatim>\<open>dan@x.com\<close>. \<^verbatim>\<open>login\<close> then finds one user for that
  identity whoever sends it: Dan's own password is rejected and Carl's is accepted, and
  with the two users stored in the other order it is Carl's login by username that is
  rejected.\<close>

theorem login_collision_counterexample:
  "snd (register env_dan (Some ''dan'') (Some ''dan@x.com'') (Some ''danpw'')
     (snd (register env_carl (Some ''dan@x.com'') (Some ''carl@x.com'') (Some ''carlpw'')
        empty_db))) = collide_db \<and>
   email dan = toLowerCase demo_env ''dan@x.com'' \<and>
   bcrypt_compare demo_env ''danpw'' (passwordHash dan) \<and>
   login demo_env (Some ''dan@x.com'') (Some ''danpw'') collide_db =
     reply 400 (Message ''Invalid credentials'') \<and>
   \<not> bcrypt_compare demo_env ''carlpw'' (passwordHash dan) \<and>
   status (login demo_env (Some ''dan@x.com'') (Some ''carlpw'') collide_db) = 200 \<and>
   username carl = ''dan@x.com'' \<and>
   bcrypt_compare demo_env ''carlpw'' (passwordHash carl) \<and>
   login demo_env (Some ''dan@x.com'') (Some ''carlpw'') collide_db' =
     reply 400 (Message ''Invalid credentials'')"
  by (simp add: register_def login_def falsy_def demo_lower ascii_lower validateUser_def JWT_SECRET_def
      reply_def empty_db_def collide_db_def collide_db'_def carl_def dan_def env_carl_def
      env_dan_def demo_env_def)

end
